theory Spec2Isabelle
  imports Complex_Main "HOL-Library.Multiset"
begin

section \<open>GazeNet training script: data model\<close>

text \<open>
  The development follows \<^verbatim>\<open>gazenet.py\<close>. Class labels are the int64 entries of the
  target and prediction tensors, modelled as \<open>int\<close>. Python floats are modelled as
  \<open>real\<close>; the one place where IEEE arithmetic is visible to the program, the
  division of the confusion matrix by its row sums, has its own result type with the
  non-finite values.
\<close>

type_synonym label = int

datatype py_error =
    StatisticsError    \<comment> \<open>\<^verbatim>\<open>statistics.mean\<close> on an empty list\<close>
  | ZeroDivisionError  \<comment> \<open>Python float or int division (or modulo) by zero\<close>
  | RuntimeError       \<comment> \<open>torch: a shape that cannot be viewed or broadcast\<close>
  | ValueError         \<comment> \<open>refused arguments: sklearn, matplotlib, the loss and the loader of torch\<close>
  | EmptyDatasetError  \<comment> \<open>the name used in the specification; no path of the script raises it\<close>

text \<open>The result of a numpy float division: numpy warns, and does not raise, on a zero divisor.\<close>

datatype npfloat = Finite real | PosInf | NaN

subsection \<open>The confusion matrix (lines 68 to 112)\<close>

text \<open>
  \<^verbatim>\<open>sklearn.utils.multiclass.unique_labels\<close>, which \<^verbatim>\<open>confusion_matrix\<close> uses when no
  label list is passed: the labels that occur in either argument, in ascending order.
\<close>

definition unique_labels :: "label list \<Rightarrow> label list \<Rightarrow> label list" where
  "unique_labels y_true y_pred = sort (remdups (y_true @ y_pred))"

text \<open>
  \<^verbatim>\<open>sklearn.metrics.confusion_matrix(y_true, y_pred)\<close> after its documentation: entry
  \<open>(i, j)\<close> counts the samples whose true label is the \<open>i\<close>-th and whose predicted label
  is the \<open>j\<close>-th of \<open>unique_labels\<close>. Arguments of different lengths are rejected, and so
  is an empty label set.
\<close>

definition count_pairs :: "label list \<Rightarrow> label list \<Rightarrow> label \<Rightarrow> label \<Rightarrow> nat" where
  "count_pairs y_true y_pred t p = length (filter (\<lambda>(a, b). a = t \<and> b = p) (zip y_true y_pred))"

definition confusion_matrix :: "label list \<Rightarrow> label list \<Rightarrow> py_error + nat list list" where
  "confusion_matrix y_true y_pred =
     (if length y_true \<noteq> length y_pred then Inl ValueError
      else let labels = unique_labels y_true y_pred in
        if labels = [] then Inl ValueError
        else Inr (map (\<lambda>t. map (\<lambda>p. count_pairs y_true y_pred t p) labels) labels))"

text \<open>\<^verbatim>\<open>x / s\<close> on numpy floats converted from counts.\<close>

definition np_divide :: "nat \<Rightarrow> nat \<Rightarrow> npfloat" where
  "np_divide x s = (if s = 0 then (if x = 0 then NaN else PosInf) else Finite (real x / real s))"

text \<open>Line 84: \<^verbatim>\<open>cm.astype('float') / cm.sum(axis=1)[:, np.newaxis]\<close>.\<close>

definition normalize_rows :: "nat list list \<Rightarrow> npfloat list list" where
  "normalize_rows cm = map (\<lambda>row. map (\<lambda>x. np_divide x (sum_list row)) row) cm"

text \<open>
  \<^verbatim>\<open>plot_confusion_matrix\<close>, lines 73 to 87: up to the matrix it hands to \<^verbatim>\<open>imshow\<close>.
\<close>

definition plot_confusion_matrix :: "label list \<Rightarrow> label list \<Rightarrow> bool \<Rightarrow> py_error + npfloat list list" where
  "plot_confusion_matrix y_true y_pred normalize_p =
     (case confusion_matrix y_true y_pred of
        Inl e \<Rightarrow> Inl e
      | Inr cm \<Rightarrow> Inr (if normalize_p then normalize_rows cm
                      else map (map (\<lambda>x. Finite (real x))) cm))"

text \<open>
  The rest of \<^verbatim>\<open>plot_confusion_matrix\<close>, lines 88 to 111. \<^verbatim>\<open>ax3.set\<close> puts one tick on
  every row and on every column of the matrix and the names in \<^verbatim>\<open>classes\<close> on the ticks of
  both axes; matplotlib refuses a number of names that differs from the number of ticks.
  The annotations accept every entry, and the figure is saved.
\<close>

definition save_confusion_matrix :: "string list \<Rightarrow> npfloat list list \<Rightarrow> py_error + npfloat list list" where
  "save_confusion_matrix classes cm =
     (if length cm = length classes \<and> list_all (\<lambda>row. length row = length classes) cm
      then Inr cm else Inl ValueError)"

subsection \<open>Configuration and collaborators\<close>

text \<open>Line 45 and 46: the class names, and \<^verbatim>\<open>args.num_classes\<close> as their number.\<close>

definition activity_classes :: "string list" where
  "activity_classes = [''Eyes Closed'', ''Forward'', ''Shoulder'', ''Left Mirror'', ''Lap'',
     ''Speedometer'', ''Radio'', ''Rearview'', ''Right Mirror'']"

definition num_classes :: nat where
  "num_classes = length activity_classes"

text \<open>The command-line options the loops read.\<close>

record args =
  batch_size :: int
  epochs :: int
  log_schedule :: int

text \<open>
  A batch is a pair of the inputs and their targets. A loader is the dataset's length
  together with the batches one iteration over it yields. With \<^verbatim>\<open>shuffle=True\<close> every
  iteration draws a new order, so the supervisor below receives the loaders as a
  function of the epoch in which they are iterated.
\<close>

type_synonym 'x batch = "'x list \<times> label list"

record 'x data_loader =
  dataset_len :: nat
  stream :: "'x batch list"

text \<open>
  \<^verbatim>\<open>netGaze\<close> with the optimizer built on its parameters (line 222): the parameters,
  their \<^verbatim>\<open>.grad\<close> fields, the mode flag that \<^verbatim>\<open>train()\<close> and \<^verbatim>\<open>eval()\<close> set, and the
  momentum buffers of \<^verbatim>\<open>optim.SGD\<close>.
\<close>

record ('p, 'g, 'o) net_state =
  params :: 'p
  grads :: 'g
  training :: bool
  momentum_buf :: 'o

text \<open>
  What torch and the network compute is taken as given: the forward pass (the elements
  of the score tensor in row-major order, a function of the parameters, the mode and the
  input batch), the loss, and the three steps of gradient descent. They are total
  functions here: a failure inside one of them (a device error, a target that is no class
  index) ends the real run with an exception and is not part of the model.
\<close>

record ('p, 'g, 'o, 'x) torch_ops =
  forward :: "'p \<Rightarrow> bool \<Rightarrow> 'x list \<Rightarrow> real list"
  nll_loss :: "real list list \<Rightarrow> label list \<Rightarrow> real"
  zero_grad :: "'g \<Rightarrow> 'g"
  backward :: "'p \<Rightarrow> bool \<Rightarrow> 'x list \<Rightarrow> label list \<Rightarrow> 'g \<Rightarrow> 'g"
  sgd_step :: "'o \<Rightarrow> 'g \<Rightarrow> 'p \<Rightarrow> 'p \<times> 'o"

text \<open>The files the script writes, as the sequence of writes in the order they happen.\<close>

datatype 'p file_write =
    LogStep int nat nat real         \<comment> \<open>\<^verbatim>\<open>logs.txt\<close>, line 154: epoch, examples seen, dataset length, loss\<close>
  | LogAvgLoss real                  \<comment> \<open>\<^verbatim>\<open>logs.txt\<close>, line 162\<close>
  | LogTrainAccuracy real            \<comment> \<open>\<^verbatim>\<open>logs.txt\<close>, line 167\<close>
  | LogValidation nat nat real       \<comment> \<open>\<^verbatim>\<open>logs.txt\<close>, lines 198 and 199: correct, dataset length, accuracy\<close>
  | SaveModel 'p                     \<comment> \<open>\<^verbatim>\<open>netGaze.pth\<close>, line 205\<close>
  | SaveConfusionMatrix "npfloat list list"  \<comment> \<open>\<^verbatim>\<open>confusion_matrix.jpg\<close>, line 111\<close>
  | SaveTrainLoss "real list"        \<comment> \<open>\<^verbatim>\<open>train_loss.jpg\<close>, line 239\<close>
  | SaveTrainValAccuracy "real list" "real list"  \<comment> \<open>\<^verbatim>\<open>trainval_accuracy.jpg\<close>, line 246\<close>

text \<open>The module's global variables and the files.\<close>

record ('p, 'g, 'o) world =
  netGaze :: "('p, 'g, 'o) net_state"
  best_accuracy :: real
  train_loss :: "real list"
  train_acc :: "real list"
  val_acc :: "real list"
  files :: "'p file_write list"

text \<open>Line 120 and lines 226 and 233: the state in which the first epoch starts.\<close>

definition init_world :: "('p, 'g, 'o) net_state \<Rightarrow> ('p, 'g, 'o) world" where
  "init_world net = \<lparr>netGaze = net, best_accuracy = 0.0, train_loss = [], train_acc = [],
     val_acc = [], files = []\<rparr>"

subsection \<open>Tensor operations the loops apply to the scores\<close>

text \<open>Cutting a list into rows of \<open>n\<close> entries.\<close>

fun chunks :: "nat \<Rightarrow> 'a list \<Rightarrow> 'a list list" where
  "chunks n xs = (if n = 0 \<or> xs = [] then [] else take n xs # chunks n (drop n xs))"

declare chunks.simps [simp del]

text \<open>
  \<^verbatim>\<open>scores.view(-1, args.num_classes)\<close>: torch refuses a tensor whose size is not a
  multiple of the row length; an empty tensor has no rows.
\<close>

definition view_rows :: "real list \<Rightarrow> py_error + real list list" where
  "view_rows xs =
     (if length xs mod num_classes \<noteq> 0 then Inl RuntimeError
      else Inr (chunks num_classes xs))"

text \<open>
  \<^verbatim>\<open>scores.data.max(1)[1]\<close>: for each row the index of its maximum, the first one where
  several entries are maximal.
\<close>

fun argmax_from :: "real \<Rightarrow> nat \<Rightarrow> nat \<Rightarrow> real list \<Rightarrow> nat" where
  "argmax_from best best_i i [] = best_i"
| "argmax_from best best_i i (x # xs) =
     (if best < x then argmax_from x i (Suc i) xs else argmax_from best best_i (Suc i) xs)"

definition argmax :: "real list \<Rightarrow> label" where
  "argmax row = (case row of [] \<Rightarrow> 0 | x # xs \<Rightarrow> int (argmax_from x 0 1 xs))"

text \<open>
  \<^verbatim>\<open>pred.eq(targets)\<close> on one-dimensional tensors: elementwise when the lengths agree,
  broadcast when one operand has a single element, refused otherwise.
\<close>

definition tensor_eq :: "label list \<Rightarrow> label list \<Rightarrow> py_error + bool list" where
  "tensor_eq a b =
     (if length a = length b then Inr (map (\<lambda>(x, y). x = y) (zip a b))
      else if length a = 1 then Inr (map (\<lambda>y. hd a = y) b)
      else if length b = 1 then Inr (map (\<lambda>x. x = hd b) a)
      else Inl RuntimeError)"

definition count_true :: "bool list \<Rightarrow> nat" where
  "count_true bs = length (filter (\<lambda>b. b) bs)"

text \<open>\<^verbatim>\<open>statistics.mean\<close>: the exact sum over the number of values; an empty list is refused.\<close>

definition mean :: "real list \<Rightarrow> py_error + real" where
  "mean xs = (if xs = [] then Inl StatisticsError else Inr (sum_list xs / real (length xs)))"

text \<open>\<^verbatim>\<open>100.0 * float(correct) / len(dataset)\<close>.\<close>

definition accuracy :: "nat \<Rightarrow> nat \<Rightarrow> py_error + real" where
  "accuracy correct n = (if n = 0 then Inl ZeroDivisionError else Inr (100.0 * real correct / real n))"


subsection \<open>The training pass (lines 124 to 169)\<close>

text \<open>
  The body of the loop at line 128, on the batch with index \<open>b_idx\<close>. The loop's
  variables are the world, \<^verbatim>\<open>epoch_loss\<close> and \<^verbatim>\<open>correct\<close>. \<^verbatim>\<open>F.nll_loss\<close> refuses scores
  whose number of rows is not the number of targets. The progress line divides by the
  dataset's length, and the test before it takes a remainder by \<^verbatim>\<open>log_schedule\<close>.
\<close>

definition train_batch ::
  "('p, 'g, 'o, 'x) torch_ops \<Rightarrow> args \<Rightarrow> nat \<Rightarrow> int \<Rightarrow> nat \<Rightarrow> 'x batch \<Rightarrow>
   ('p, 'g, 'o) world \<times> real list \<times> nat \<Rightarrow> py_error + (('p, 'g, 'o) world \<times> real list \<times> nat)" where
  "train_batch ops a n epoch b_idx b acc =
     (case (b, acc) of ((data, targets), (st, epoch_loss, correct)) \<Rightarrow>
      let net = netGaze st;
          net1 = net\<lparr>grads := zero_grad ops (grads net)\<rparr>
      in case view_rows (forward ops (params net1) (training net1) data) of
           Inl e \<Rightarrow> Inl e
         | Inr scores \<Rightarrow>
             if length scores \<noteq> length targets then Inl ValueError
             else
             let loss = nll_loss ops scores targets;
                 pred = map argmax scores
             in case tensor_eq pred targets of
                  Inl e \<Rightarrow> Inl e
                | Inr eq \<Rightarrow>
                    let correct1 = correct + count_true eq;
                        epoch_loss1 = epoch_loss @ [loss];
                        net2 = net1\<lparr>grads := backward ops (params net1) (training net1) data targets (grads net1)\<rparr>;
                        stepped = sgd_step ops (momentum_buf net2) (grads net2) (params net2);
                        net3 = net2\<lparr>params := fst stepped, momentum_buf := snd stepped\<rparr>;
                        st1 = st\<lparr>netGaze := net3\<rparr>
                    in if log_schedule a = 0 then Inl ZeroDivisionError
                       else if int b_idx mod log_schedule a = 0 then
                         (if n = 0 then Inl ZeroDivisionError
                          else Inr (st1\<lparr>files := files st1 @ [LogStep epoch ((b_idx + 1) * length data) n loss]\<rparr>,
                                    epoch_loss1, correct1))
                       else Inr (st1, epoch_loss1, correct1))"

fun train_batches ::
  "('p, 'g, 'o, 'x) torch_ops \<Rightarrow> args \<Rightarrow> nat \<Rightarrow> int \<Rightarrow> nat \<Rightarrow> 'x batch list \<Rightarrow>
   ('p, 'g, 'o) world \<times> real list \<times> nat \<Rightarrow> py_error + (('p, 'g, 'o) world \<times> real list \<times> nat)" where
  "train_batches ops a n epoch b_idx [] acc = Inr acc"
| "train_batches ops a n epoch b_idx (b # bs) acc =
     (case train_batch ops a n epoch b_idx b acc of
        Inl e \<Rightarrow> Inl e
      | Inr acc1 \<Rightarrow> train_batches ops a n epoch (Suc b_idx) bs acc1)"

text \<open>\<^verbatim>\<open>train(netGaze, epoch)\<close>: the world after the pass, the average loss and the accuracy.\<close>

definition train ::
  "('p, 'g, 'o, 'x) torch_ops \<Rightarrow> args \<Rightarrow> 'x data_loader \<Rightarrow> int \<Rightarrow> ('p, 'g, 'o) world \<Rightarrow>
   py_error + (('p, 'g, 'o) world \<times> real \<times> real)" where
  "train ops a train_loader epoch st =
     (let st0 = st\<lparr>netGaze := (netGaze st)\<lparr>training := True\<rparr>\<rparr>
      in case train_batches ops a (dataset_len train_loader) epoch 0 (stream train_loader) (st0, [], 0) of
           Inl e \<Rightarrow> Inl e
         | Inr (st1, epoch_loss, correct) \<Rightarrow>
             (case mean epoch_loss of
                Inl e \<Rightarrow> Inl e
              | Inr avg_loss \<Rightarrow>
                  let st2 = st1\<lparr>files := files st1 @ [LogAvgLoss avg_loss]\<rparr>
                  in case accuracy correct (dataset_len train_loader) of
                       Inl e \<Rightarrow> Inl e
                     | Inr train_accuracy \<Rightarrow>
                         Inr (st2\<lparr>files := files st2 @ [LogTrainAccuracy train_accuracy]\<rparr>,
                              avg_loss, train_accuracy)))"

subsection \<open>The validation pass (lines 173 to 208)\<close>

text \<open>The body of the loop at line 180; its variables are \<^verbatim>\<open>correct\<close>, \<^verbatim>\<open>pred_all\<close> and \<^verbatim>\<open>target_all\<close>.\<close>

definition val_batch ::
  "('p, 'g, 'o, 'x) torch_ops \<Rightarrow> ('p, 'g, 'o) net_state \<Rightarrow> 'x batch \<Rightarrow>
   nat \<times> label list \<times> label list \<Rightarrow> py_error + (nat \<times> label list \<times> label list)" where
  "val_batch ops net b acc =
     (case (b, acc) of ((data, target), (correct, pred_all, target_all)) \<Rightarrow>
      case view_rows (forward ops (params net) (training net) data) of
        Inl e \<Rightarrow> Inl e
      | Inr scores \<Rightarrow>
          let pred = map argmax scores
          in case tensor_eq pred target of
               Inl e \<Rightarrow> Inl e
             | Inr eq \<Rightarrow> Inr (correct + count_true eq, pred_all @ pred, target_all @ target))"

fun val_batches ::
  "('p, 'g, 'o, 'x) torch_ops \<Rightarrow> ('p, 'g, 'o) net_state \<Rightarrow> 'x batch list \<Rightarrow>
   nat \<times> label list \<times> label list \<Rightarrow> py_error + (nat \<times> label list \<times> label list)" where
  "val_batches ops net [] acc = Inr acc"
| "val_batches ops net (b # bs) acc =
     (case val_batch ops net b acc of
        Inl e \<Rightarrow> Inl e
      | Inr acc1 \<Rightarrow> val_batches ops net bs acc1)"

text \<open>
  \<^verbatim>\<open>val(netGaze)\<close>: the world after the pass and the validation accuracy. The branch at
  line 202 updates \<^verbatim>\<open>best_accuracy\<close>, saves the parameters and draws the confusion matrix
  of the pass with the names of \<^verbatim>\<open>activity_classes\<close> on its ticks, in that order.
\<close>

definition val ::
  "('p, 'g, 'o, 'x) torch_ops \<Rightarrow> 'x data_loader \<Rightarrow> ('p, 'g, 'o) world \<Rightarrow>
   py_error + (('p, 'g, 'o) world \<times> real)" where
  "val ops val_loader st =
     (let st0 = st\<lparr>netGaze := (netGaze st)\<lparr>training := False\<rparr>\<rparr>
      in case val_batches ops (netGaze st0) (stream val_loader) (0, [], []) of
           Inl e \<Rightarrow> Inl e
         | Inr (correct, pred_all, target_all) \<Rightarrow>
             (case accuracy correct (dataset_len val_loader) of
                Inl e \<Rightarrow> Inl e
              | Inr val_accuracy \<Rightarrow>
                  let st1 = st0\<lparr>files := files st0 @ [LogValidation correct (dataset_len val_loader) val_accuracy]\<rparr>
                  in if best_accuracy st1 < val_accuracy then
                       let st2 = st1\<lparr>best_accuracy := val_accuracy\<rparr>;
                           st3 = st2\<lparr>files := files st2 @ [SaveModel (params (netGaze st2))]\<rparr>
                       in (case plot_confusion_matrix target_all pred_all True of
                             Inl e \<Rightarrow> Inl e
                           | Inr cm \<Rightarrow>
                               (case save_confusion_matrix activity_classes cm of
                                  Inl e \<Rightarrow> Inl e
                                | Inr m \<Rightarrow>
                                    Inr (st3\<lparr>files := files st3 @ [SaveConfusionMatrix m]\<rparr>, val_accuracy)))
                     else Inr (st1, val_accuracy)))"

subsection \<open>The supervisor (lines 234 to 246)\<close>

fun main_epochs ::
  "('p, 'g, 'o, 'x) torch_ops \<Rightarrow> args \<Rightarrow> (int \<Rightarrow> 'x data_loader) \<Rightarrow> (int \<Rightarrow> 'x data_loader) \<Rightarrow>
   int list \<Rightarrow> ('p, 'g, 'o) world \<Rightarrow> py_error + ('p, 'g, 'o) world" where
  "main_epochs ops a train_loader val_loader [] st = Inr st"
| "main_epochs ops a train_loader val_loader (i # es) st =
     (case train ops a (train_loader i) i st of
        Inl e \<Rightarrow> Inl e
      | Inr (st1, avg_loss, acc) \<Rightarrow>
          let st2 = st1\<lparr>train_loss := train_loss st1 @ [avg_loss]\<rparr>;
              st3 = st2\<lparr>files := files st2 @ [SaveTrainLoss (train_loss st2)]\<rparr>;
              st4 = st3\<lparr>train_acc := train_acc st3 @ [acc]\<rparr>
          in case val ops (val_loader i) st4 of
               Inl e \<Rightarrow> Inl e
             | Inr (st5, v) \<Rightarrow>
                 let st6 = st5\<lparr>val_acc := val_acc st5 @ [v]\<rparr>;
                     st7 = st6\<lparr>files := files st6 @ [SaveTrainValAccuracy (train_acc st6) (val_acc st6)]\<rparr>
                 in main_epochs ops a train_loader val_loader es st7)"

text \<open>\<^verbatim>\<open>for i in range(1, args.epochs+1)\<close>.\<close>

definition main_loop ::
  "('p, 'g, 'o, 'x) torch_ops \<Rightarrow> args \<Rightarrow> (int \<Rightarrow> 'x data_loader) \<Rightarrow> (int \<Rightarrow> 'x data_loader) \<Rightarrow>
   ('p, 'g, 'o) world \<Rightarrow> py_error + ('p, 'g, 'o) world" where
  "main_loop ops a train_loader val_loader st =
     main_epochs ops a train_loader val_loader [1..epochs a] st"

subsection \<open>The loaders and the script (lines 115 to 117 and 211 to 247)\<close>

text \<open>
  \<^verbatim>\<open>torch.utils.data.DataLoader(dataset, batch_size, shuffle=True)\<close> after its
  documentation. The sampler refuses a dataset without examples and the batch sampler a
  batch size that is not positive. A loader that is built yields, on every iteration, the
  examples in the order drawn for that iteration, cut into batches of \<^verbatim>\<open>batch_size\<close>, the
  last one shorter when the division leaves a rest. The order drawn in an epoch is a
  parameter.
\<close>

definition collate :: "('x \<times> label) list \<Rightarrow> 'x batch" where
  "collate examples = (map fst examples, map snd examples)"

definition DataLoader ::
  "('x \<times> label) list \<Rightarrow> int \<Rightarrow> (int \<Rightarrow> ('x \<times> label) list \<Rightarrow> ('x \<times> label) list) \<Rightarrow>
   py_error + (int \<Rightarrow> 'x data_loader)" where
  "DataLoader dataset bs order_in =
     (if dataset = [] \<or> bs \<le> 0 then Inl ValueError
      else Inr (\<lambda>i. \<lparr>dataset_len = length dataset,
                       stream = map collate (chunks (nat bs) (order_in i dataset))\<rparr>))"

text \<open>The script from line 115 on: both loaders are built, then the epochs run.\<close>

definition script ::
  "('p, 'g, 'o, 'x) torch_ops \<Rightarrow> args \<Rightarrow> ('x \<times> label) list \<Rightarrow> ('x \<times> label) list \<Rightarrow>
   (int \<Rightarrow> ('x \<times> label) list \<Rightarrow> ('x \<times> label) list) \<Rightarrow>
   (int \<Rightarrow> ('x \<times> label) list \<Rightarrow> ('x \<times> label) list) \<Rightarrow>
   ('p, 'g, 'o) net_state \<Rightarrow> py_error + ('p, 'g, 'o) world" where
  "script ops a train_set val_set train_order val_order net =
     (case DataLoader train_set (batch_size a) train_order of
        Inl e \<Rightarrow> Inl e
      | Inr train_loader \<Rightarrow>
          (case DataLoader val_set (batch_size a) val_order of
             Inl e \<Rightarrow> Inl e
           | Inr val_loader \<Rightarrow> main_loop ops a train_loader val_loader (init_world net)))"


section \<open>Reference notions for the properties\<close>

text \<open>How often a sequence of file writes saves the model, and how often it draws the matrix.\<close>

fun is_SaveModel :: "'p file_write \<Rightarrow> bool" where
  "is_SaveModel (SaveModel p) = True"
| "is_SaveModel w = False"

fun is_SaveConfusionMatrix :: "'p file_write \<Rightarrow> bool" where
  "is_SaveConfusionMatrix (SaveConfusionMatrix m) = True"
| "is_SaveConfusionMatrix w = False"

definition checkpoint_writes :: "'p file_write list \<Rightarrow> nat" where
  "checkpoint_writes fs = length (filter is_SaveModel fs)"

definition confusion_renders :: "'p file_write list \<Rightarrow> nat" where
  "confusion_renders fs = length (filter is_SaveConfusionMatrix fs)"

text \<open>
  The number of entries of a sequence of accuracies that strictly exceed the running
  maximum, which starts at \<open>b\<close>.
\<close>

fun new_bests :: "real \<Rightarrow> real list \<Rightarrow> nat" where
  "new_bests b [] = 0"
| "new_bests b (v # vs) = (if b < v then Suc (new_bests v vs) else new_bests b vs)"

text \<open>
  One batch of gradient descent on the network alone (lines 135, 146 and 147), and the
  loss and the predictions of a batch under given parameters.
\<close>

definition sgd_update ::
  "('p, 'g, 'o, 'x) torch_ops \<Rightarrow> ('p, 'g, 'o) net_state \<Rightarrow> 'x batch \<Rightarrow> ('p, 'g, 'o) net_state" where
  "sgd_update ops net b =
     (let g = backward ops (params net) (training net) (fst b) (snd b) (zero_grad ops (grads net));
          stepped = sgd_step ops (momentum_buf net) g (params net)
      in net\<lparr>params := fst stepped, grads := g, momentum_buf := snd stepped\<rparr>)"

definition batch_loss ::
  "('p, 'g, 'o, 'x) torch_ops \<Rightarrow> ('p, 'g, 'o) net_state \<Rightarrow> 'x batch \<Rightarrow> real" where
  "batch_loss ops net b =
     nll_loss ops (chunks num_classes (forward ops (params net) (training net) (fst b))) (snd b)"

definition batch_pred ::
  "('p, 'g, 'o, 'x) torch_ops \<Rightarrow> ('p, 'g, 'o) net_state \<Rightarrow> 'x batch \<Rightarrow> label list" where
  "batch_pred ops net b =
     map argmax (chunks num_classes (forward ops (params net) (training net) (fst b)))"

text \<open>The losses of the batches of a pass, each under the parameters in force when it is reached.\<close>

fun batch_losses ::
  "('p, 'g, 'o, 'x) torch_ops \<Rightarrow> ('p, 'g, 'o) net_state \<Rightarrow> 'x batch list \<Rightarrow> real list" where
  "batch_losses ops net [] = []"
| "batch_losses ops net (b # bs) = batch_loss ops net b # batch_losses ops (sgd_update ops net b) bs"

text \<open>
  A training pass and a validation pass as functions of the network alone: what
  \<open>train\<close> makes of a network, and the accuracy of a network on a validation loader.
\<close>

definition train_pass ::
  "('p, 'g, 'o, 'x) torch_ops \<Rightarrow> args \<Rightarrow> 'x data_loader \<Rightarrow> int \<Rightarrow> ('p, 'g, 'o) net_state \<Rightarrow>
   py_error + (('p, 'g, 'o) net_state \<times> real \<times> real)" where
  "train_pass ops a train_loader epoch net =
     (case train ops a train_loader epoch (init_world net) of
        Inl e \<Rightarrow> Inl e
      | Inr (st, avg_loss, acc) \<Rightarrow> Inr (netGaze st, avg_loss, acc))"

definition val_accuracy_of ::
  "('p, 'g, 'o, 'x) torch_ops \<Rightarrow> 'x data_loader \<Rightarrow> ('p, 'g, 'o) net_state \<Rightarrow> py_error + real" where
  "val_accuracy_of ops val_loader net =
     (case val_batches ops (net\<lparr>training := False\<rparr>) (stream val_loader) (0, [], []) of
        Inl e \<Rightarrow> Inl e
      | Inr (correct, pred_all, target_all) \<Rightarrow> accuracy correct (dataset_len val_loader))"

text \<open>The network after the training passes of the given epochs, and nothing else, in order.\<close>

fun trained ::
  "('p, 'g, 'o, 'x) torch_ops \<Rightarrow> args \<Rightarrow> (int \<Rightarrow> 'x data_loader) \<Rightarrow> int list \<Rightarrow>
   ('p, 'g, 'o) net_state \<Rightarrow> py_error + ('p, 'g, 'o) net_state" where
  "trained ops a train_loader [] net = Inr net"
| "trained ops a train_loader (i # es) net =
     (case train_pass ops a (train_loader i) i net of
        Inl e \<Rightarrow> Inl e
      | Inr (net1, avg_loss, acc) \<Rightarrow> trained ops a train_loader es net1)"

text \<open>
  What the loops rely on from a loader and from the network: every example of the
  dataset is in exactly one batch, and the scores of a batch have one row per target.
\<close>

definition covers_dataset :: "'x data_loader \<Rightarrow> bool" where
  "covers_dataset loader \<longleftrightarrow> sum_list (map (\<lambda>b. length (snd b)) (stream loader)) = dataset_len loader"

definition one_row_per_target :: "('p, 'g, 'o, 'x) torch_ops \<Rightarrow> 'x data_loader \<Rightarrow> bool" where
  "one_row_per_target ops loader \<longleftrightarrow>
     (\<forall>b \<in> set (stream loader). \<forall>p m. length (forward ops p m (fst b)) = num_classes * length (snd b))"

subsection \<open>A small instance\<close>

text \<open>
  Integer inputs and an integer parameter: an input \<open>x\<close> is scored for class 0 when the
  parameter is at most \<open>x\<close> and for class 1 otherwise, the loss is the mean of the negated
  scores of the targets, and every step raises the parameter by one. The batch size is 1.
  The validation loader holds ten examples whose targets are the nine classes; the second
  one holds a single example that is never predicted correctly.
\<close>

definition example_row :: "label \<Rightarrow> real list" where
  "example_row c = map (\<lambda>j. if j = c then 0 else - 1) [0, 1, 2, 3, 4, 5, 6, 7, 8]"

definition example_ops :: "(int, int, int, int) torch_ops" where
  "example_ops = \<lparr>
     forward = (\<lambda>p m data. concat (map (\<lambda>x. example_row (if p \<le> x then 0 else 1)) data)),
     nll_loss = (\<lambda>scores targets.
       - sum_list (map (\<lambda>(row, t). row ! nat t) (zip scores targets)) / real (length targets)),
     zero_grad = (\<lambda>g. 0),
     backward = (\<lambda>p m data targets g. g + 1),
     sgd_step = (\<lambda>buf g p. (p + g, buf + g))\<rparr>"

definition example_net :: "(int, int, int) net_state" where
  "example_net = \<lparr>params = 0, grads = 0, training = False, momentum_buf = 0\<rparr>"

definition example_args :: args where
  "example_args = \<lparr>batch_size = 1, epochs = 2, log_schedule = 10\<rparr>"

definition example_train_loader :: "int data_loader" where
  "example_train_loader = \<lparr>dataset_len = 2, stream = [([0], [0]), ([7], [1])]\<rparr>"

definition example_val_loader :: "int data_loader" where
  "example_val_loader = \<lparr>dataset_len = 10,
     stream = [([5], [0]), ([5], [0]), ([5], [1]), ([5], [2]), ([5], [3]), ([5], [4]),
       ([5], [5]), ([5], [6]), ([5], [7]), ([5], [8])]\<rparr>"

definition example_val_loader_missed :: "int data_loader" where
  "example_val_loader_missed = \<lparr>dataset_len = 1, stream = [([5], [1])]\<rparr>"

definition example_train_set :: "(int \<times> label) list" where
  "example_train_set = [(0, 0), (7, 1)]"

definition example_val_set :: "(int \<times> label) list" where
  "example_val_set = [(5, 1)]"

definition example_order :: "int \<Rightarrow> (int \<times> label) list \<Rightarrow> (int \<times> label) list" where
  "example_order i examples = examples"

text \<open>The same loaders in every epoch.\<close>

definition example_train_loaders :: "int \<Rightarrow> int data_loader" where
  "example_train_loaders i = example_train_loader"

definition example_val_loaders :: "int \<Rightarrow> int data_loader" where
  "example_val_loaders i = example_val_loader"

definition example_val_loaders_missed :: "int \<Rightarrow> int data_loader" where
  "example_val_loaders_missed i = example_val_loader_missed"

text \<open>
  The worlds these runs end in: after one training pass, after one validation pass on the
  untrained network, and after two epochs with each of the two validation loaders. In the
  confusion matrix of the first loader every class is predicted as class 0.
\<close>

definition example_trained :: "(int, int, int) world" where
  "example_trained =
     \<lparr>netGaze = \<lparr>params = 2, grads = 1, training = True, momentum_buf = 2\<rparr>,
      best_accuracy = 0, train_loss = [], train_acc = [], val_acc = [],
      files = [LogStep 1 1 2 0, LogAvgLoss (1 / 2), LogTrainAccuracy 50]\<rparr>"

definition example_matrix_row :: "npfloat list" where
  "example_matrix_row = [Finite 1, Finite 0, Finite 0, Finite 0, Finite 0, Finite 0, Finite 0,
     Finite 0, Finite 0]"

definition example_matrix :: "npfloat list list" where
  "example_matrix = [example_matrix_row, example_matrix_row, example_matrix_row,
     example_matrix_row, example_matrix_row, example_matrix_row, example_matrix_row,
     example_matrix_row, example_matrix_row]"

definition example_validated :: "(int, int, int) world" where
  "example_validated =
     \<lparr>netGaze = \<lparr>params = 0, grads = 0, training = False, momentum_buf = 0\<rparr>,
      best_accuracy = 20, train_loss = [], train_acc = [], val_acc = [],
      files = [LogValidation 2 10 20, SaveModel 0, SaveConfusionMatrix example_matrix]\<rparr>"

definition example_final :: "(int, int, int) world" where
  "example_final =
     \<lparr>netGaze = \<lparr>params = 4, grads = 1, training = False, momentum_buf = 4\<rparr>,
      best_accuracy = 20, train_loss = [1 / 2, 1], train_acc = [50, 0], val_acc = [20, 20],
      files = [LogStep 1 1 2 0, LogAvgLoss (1 / 2), LogTrainAccuracy 50,
         SaveTrainLoss [1 / 2], LogValidation 2 10 20, SaveModel 2,
         SaveConfusionMatrix example_matrix,
         SaveTrainValAccuracy [50] [20], LogStep 2 1 2 1, LogAvgLoss 1,
         LogTrainAccuracy 0, SaveTrainLoss [1 / 2, 1],
         LogValidation 2 10 20, SaveTrainValAccuracy [50, 0] [20, 20]]\<rparr>"

definition example_final_missed :: "(int, int, int) world" where
  "example_final_missed =
     \<lparr>netGaze = \<lparr>params = 4, grads = 1, training = False, momentum_buf = 4\<rparr>,
      best_accuracy = 0, train_loss = [1 / 2, 1], train_acc = [50, 0], val_acc = [0, 0],
      files = [LogStep 1 1 2 0, LogAvgLoss (1 / 2), LogTrainAccuracy 50,
         SaveTrainLoss [1 / 2], LogValidation 0 1 0, SaveTrainValAccuracy [50] [0],
         LogStep 2 1 2 1, LogAvgLoss 1, LogTrainAccuracy 0, SaveTrainLoss [1 / 2, 1],
         LogValidation 0 1 0, SaveTrainValAccuracy [50, 0] [0, 0]]\<rparr>"
section \<open>Properties of the confusion matrix\<close>

lemma set_unique_labels: "set (unique_labels yt yp) = set yt \<union> set yp"
  by (simp add: unique_labels_def)

lemma distinct_unique_labels: "distinct (unique_labels yt yp)"
  by (simp add: unique_labels_def)

lemma sorted_unique_labels: "sorted (unique_labels yt yp)"
  by (simp add: unique_labels_def)

lemma unique_labels_sorted_list: "unique_labels yt yp = sorted_list_of_set (set yt \<union> set yp)"
  unfolding unique_labels_def set_append [symmetric] by (rule sorted_list_of_set_sort_remdups [symmetric])

lemma length_unique_labels: "length (unique_labels yt yp) = card (set yt \<union> set yp)"
  by (metis distinct_card distinct_unique_labels set_unique_labels)

lemma sum_indicator_distinct:
  "distinct ls \<Longrightarrow> sum_list (map (\<lambda>p. if b = p then (1::nat) else 0) ls) = (if b \<in> set ls then 1 else 0)"
  by (induction ls) auto

lemma row_sum_pairs:
  "distinct ls \<Longrightarrow>
   sum_list (map (\<lambda>p. length (filter (\<lambda>(a, b). a = t \<and> b = p) zs)) ls) =
   length (filter (\<lambda>(a, b). a = t \<and> b \<in> set ls) zs)"
proof (induction zs)
  case Nil
  then show ?case by simp
next
  case (Cons z zs)
  obtain a b where z: "z = (a, b)" by (cases z)
  have "sum_list (map (\<lambda>p. length (filter (\<lambda>(a, b). a = t \<and> b = p) (z # zs))) ls) =
        sum_list (map (\<lambda>p. (if a = t \<and> b = p then 1 else 0) + length (filter (\<lambda>(a, b). a = t \<and> b = p) zs)) ls)"
    by (rule arg_cong [where f = sum_list]) (simp add: z)
  also have "\<dots> = sum_list (map (\<lambda>p. if a = t \<and> b = p then (1::nat) else 0) ls)
                 + sum_list (map (\<lambda>p. length (filter (\<lambda>(a, b). a = t \<and> b = p) zs)) ls)"
    by (simp add: sum_list_addf)
  also have "sum_list (map (\<lambda>p. if a = t \<and> b = p then (1::nat) else 0) ls) = (if a = t \<and> b \<in> set ls then 1 else 0)"
    using sum_indicator_distinct [OF Cons.prems, of b] by (cases "a = t") simp_all
  finally show ?case using Cons by (simp add: z)
qed

lemma filter_fst_zip:
  "length xs = length ys \<Longrightarrow> length (filter (\<lambda>(a, b). a = t) (zip xs ys)) = count_list xs t"
  by (induction xs ys rule: list_induct2) auto



lemma row_sum_count:
  assumes "length yt = length yp"
  shows "sum_list (map (\<lambda>p. count_pairs yt yp t p) (unique_labels yt yp)) = count_list yt t"
proof -
  have sub: "\<And>a b. (a, b) \<in> set (zip yt yp) \<Longrightarrow> b \<in> set (unique_labels yt yp)"
    by (auto simp: set_unique_labels dest: set_zip_rightD)
  have "sum_list (map (\<lambda>p. count_pairs yt yp t p) (unique_labels yt yp)) =
        length (filter (\<lambda>(a, b). a = t \<and> b \<in> set (unique_labels yt yp)) (zip yt yp))"
    unfolding count_pairs_def by (rule row_sum_pairs [OF distinct_unique_labels])
  also have "\<dots> = length (filter (\<lambda>(a, b). a = t) (zip yt yp))"
    by (rule arg_cong [where f = length], rule filter_cong) (auto dest: sub)
  also have "\<dots> = count_list yt t"
    by (rule filter_fst_zip [OF assms])
  finally show ?thesis .
qed

lemma confusion_matrix_Inr:
  assumes "confusion_matrix yt yp = Inr cm"
  shows "length yt = length yp"
    and "cm = map (\<lambda>t. map (\<lambda>p. count_pairs yt yp t p) (unique_labels yt yp)) (unique_labels yt yp)"
  using assms by (auto simp: confusion_matrix_def Let_def split: if_splits)

lemma confusion_matrix_row:
  assumes "confusion_matrix yt yp = Inr cm" and "i < length cm"
  shows "cm ! i = map (\<lambda>p. count_pairs yt yp (unique_labels yt yp ! i) p) (unique_labels yt yp)"
    and "sum_list (cm ! i) = count_list yt (unique_labels yt yp ! i)"
    and "i < length (unique_labels yt yp)"
proof -
  note c = confusion_matrix_Inr [OF assms(1)]
  from assms(2) c(2) show i: "i < length (unique_labels yt yp)" by simp
  from c(2) i show r: "cm ! i = map (\<lambda>p. count_pairs yt yp (unique_labels yt yp ! i) p) (unique_labels yt yp)"
    by simp
  show "sum_list (cm ! i) = count_list yt (unique_labels yt yp ! i)"
    unfolding r by (rule row_sum_count [OF c(1)])
qed

lemma count_list_pos: "0 < count_list xs x \<longleftrightarrow> x \<in> set xs"
  by (metis count_list_0_iff gr0I less_numeral_extra(3))


lemma sum_list_divide_real:
  "sum_list (map (\<lambda>p. real (f p) / real s) ls) = real (sum_list (map f ls)) / real s"
  by (induction ls) (simp_all add: add_divide_distrib)

lemma normalize_row_finite:
  assumes "sum_list row \<noteq> 0"
  shows "map (\<lambda>x. np_divide x (sum_list row)) row = map Finite (map (\<lambda>x. real x / real (sum_list row)) row)"
  using assms by (simp add: np_divide_def)

lemma sum_list_zero_replicate: "sum_list (row :: nat list) = 0 \<Longrightarrow> row = replicate (length row) 0"
  by (induction row) auto

text \<open>
  Claim C4. The matrix handed to the renderer is the confusion matrix with every row
  divided by its row sum. For a class with at least one true example the row is finite and
  sums to 1. When all ten predictions are class 0 and the true labels are five 0s and five
  1s, both rows are \<open>[1.0, 0.0]\<close>.
\<close>

theorem plot_confusion_matrix_row_normalized:
  "(plot_confusion_matrix y_true y_pred True = Inr m \<longrightarrow>
      (\<exists>cm. confusion_matrix y_true y_pred = Inr cm \<and> m = normalize_rows cm \<and>
        (\<forall>i < length m. unique_labels y_true y_pred ! i \<in> set y_true \<longrightarrow>
           (\<exists>row. m ! i = map Finite row \<and> sum_list row = 1 \<and>
              row = map (\<lambda>x. real x / real (sum_list (cm ! i))) (cm ! i) \<and>
              sum_list (cm ! i) = count_list y_true (unique_labels y_true y_pred ! i))))) \<and>
   plot_confusion_matrix [0, 0, 0, 0, 0, 1, 1, 1, 1, 1] [0, 0, 0, 0, 0, 0, 0, 0, 0, 0] True =
     Inr [[Finite 1.0, Finite 0.0], [Finite 1.0, Finite 0.0]]"
proof (intro conjI impI)
  assume p: "plot_confusion_matrix y_true y_pred True = Inr m"
  then obtain cm where cm: "confusion_matrix y_true y_pred = Inr cm" and m: "m = normalize_rows cm"
    by (auto simp: plot_confusion_matrix_def split: sum.splits)
  have "\<exists>row. m ! i = map Finite row \<and> sum_list row = 1 \<and>
              row = map (\<lambda>x. real x / real (sum_list (cm ! i))) (cm ! i) \<and>
              sum_list (cm ! i) = count_list y_true (unique_labels y_true y_pred ! i)"
    if i: "i < length m" and t: "unique_labels y_true y_pred ! i \<in> set y_true" for i
  proof -
    from i m have i': "i < length cm" by (simp add: normalize_rows_def)
    note r = confusion_matrix_row [OF cm i']
    from t have pos: "sum_list (cm ! i) \<noteq> 0"
      unfolding r(2) using count_list_pos [of y_true "unique_labels y_true y_pred ! i"] by simp
    have "m ! i = map (\<lambda>x. np_divide x (sum_list (cm ! i))) (cm ! i)"
      using i' by (simp add: m normalize_rows_def)
    then have mi: "m ! i = map Finite (map (\<lambda>x. real x / real (sum_list (cm ! i))) (cm ! i))"
      by (simp only: normalize_row_finite [OF pos])
    have "sum_list (map (\<lambda>x. real x / real (sum_list (cm ! i))) (cm ! i)) =
          real (sum_list (map (\<lambda>x. x) (cm ! i))) / real (sum_list (cm ! i))"
      by (rule sum_list_divide_real)
    also have "\<dots> = 1" using pos by simp
    finally show ?thesis using mi r(2) by blast
  qed
  with cm m show "\<exists>cm. confusion_matrix y_true y_pred = Inr cm \<and> m = normalize_rows cm \<and>
        (\<forall>i < length m. unique_labels y_true y_pred ! i \<in> set y_true \<longrightarrow>
           (\<exists>row. m ! i = map Finite row \<and> sum_list row = 1 \<and>
              row = map (\<lambda>x. real x / real (sum_list (cm ! i))) (cm ! i) \<and>
              sum_list (cm ! i) = count_list y_true (unique_labels y_true y_pred ! i)))"
    by blast
next
  show "plot_confusion_matrix [0, 0, 0, 0, 0, 1, 1, 1, 1, 1] [0, 0, 0, 0, 0, 0, 0, 0, 0, 0] True =
     Inr [[Finite 1.0, Finite 0.0], [Finite 1.0, Finite 0.0]]"
    by (simp add: plot_confusion_matrix_def confusion_matrix_def unique_labels_def count_pairs_def
        normalize_rows_def np_divide_def)
qed

theorem plot_confusion_matrix_row_normalized_witness:
  "plot_confusion_matrix [0, 0, 1] [0, 1, 1] True = Inr [[Finite (1/2), Finite (1/2)], [Finite 0, Finite 1]] \<and>
   (0::nat) < length [[Finite (1/2), Finite (1/2)], [Finite 0, Finite (1::real)]] \<and>
   unique_labels [0, 0, 1] [0, 1, 1] ! 0 \<in> set [0, 0, 1] \<and>
   (\<exists>row. [[Finite (1/2), Finite (1/2)], [Finite 0, Finite 1]] ! 0 = map Finite row \<and> sum_list row = 1)"
proof -
  have p: "plot_confusion_matrix [0, 0, 1] [0, 1, 1] True = Inr [[Finite (1/2), Finite (1/2)], [Finite 0, Finite 1]]"
    by (simp add: plot_confusion_matrix_def confusion_matrix_def unique_labels_def count_pairs_def
        normalize_rows_def np_divide_def)
  have u: "unique_labels [0, 0, 1] [0, 1, 1] ! 0 \<in> set [0, 0, 1]"
    by (simp add: unique_labels_def)
  from plot_confusion_matrix_row_normalized
    [of "[0, 0, 1]" "[0, 1, 1]" "[[Finite (1/2), Finite (1/2)], [Finite 0, Finite 1]]"] p u
  have "\<exists>row. [[Finite (1/2), Finite (1/2)], [Finite 0, Finite (1::real)]] ! 0 = map Finite row \<and> sum_list row = 1"
    by fastforce
  with p u show ?thesis by simp
qed

text \<open>
  For the true labels \<open>[0, 0]\<close> and the predictions \<open>[0, 1]\<close>, class 1 is predicted
  and never true. Its row is divided by zero, and the result is neither a row of zeros nor left out.
\<close>

theorem zero_row_sum_counterexample:
  "confusion_matrix [0, 0] [0, 1] = Inr [[1, 1], [0, 0]] \<and>
   plot_confusion_matrix [0, 0] [0, 1] True = Inr [[Finite (1/2), Finite (1/2)], [NaN, NaN]] \<and>
   plot_confusion_matrix [0, 0] [0, 1] True \<noteq> Inr [[Finite (1/2), Finite (1/2)], [Finite 0, Finite 0]] \<and>
   np_divide 0 0 = NaN"
  by (simp add: plot_confusion_matrix_def confusion_matrix_def unique_labels_def count_pairs_def
      normalize_rows_def np_divide_def)

text \<open>
  Claim C5, as amended. The division at line 84 has no guard. When a row of the confusion
  matrix sums to zero, the call still returns a matrix, and every entry of that row is the
  quotient of zero by zero, which numpy makes NaN: the undefined row reaches the renderer.
\<close>

theorem zero_row_sum_divided_unguarded:
  assumes "confusion_matrix y_true y_pred = Inr cm" and "i < length cm" and "sum_list (cm ! i) = 0"
  shows "\<exists>m. plot_confusion_matrix y_true y_pred True = Inr m \<and> length m = length cm \<and>
           m ! i = map (\<lambda>x. np_divide x 0) (cm ! i) \<and>
           m ! i = replicate (length cm) NaN"
proof -
  let ?m = "normalize_rows cm"
  have p: "plot_confusion_matrix y_true y_pred True = Inr ?m"
    using assms(1) by (simp add: plot_confusion_matrix_def)
  have "?m ! i = map (\<lambda>x. np_divide x (sum_list (cm ! i))) (cm ! i)"
    using assms(2) by (simp add: normalize_rows_def)
  then have mi: "?m ! i = map (\<lambda>x. np_divide x 0) (cm ! i)"
    by (simp only: assms(3))
  have len: "length (cm ! i) = length cm"
    using confusion_matrix_row(1) [OF assms(1,2)] confusion_matrix_Inr(2) [OF assms(1)] by simp
  have "cm ! i = replicate (length cm) 0"
    using sum_list_zero_replicate [OF assms(3)] len by simp
  then have "?m ! i = replicate (length cm) NaN"
    unfolding mi by (simp add: np_divide_def)
  with p mi show ?thesis by (simp add: normalize_rows_def)
qed

theorem zero_row_sum_divided_unguarded_witness:
  "confusion_matrix [0, 0] [1, 0] = Inr [[1, 1], [0, 0]] \<and> (1::nat) < length [[1, 1], [0, 0::nat]] \<and>
   sum_list ([[1, 1], [0, 0::nat]] ! 1) = 0 \<and>
   (\<exists>m. plot_confusion_matrix [0, 0] [1, 0] True = Inr m \<and> m ! 1 = [NaN, NaN])"
proof -
  have c: "confusion_matrix [0, 0] [1, 0] = Inr [[1, 1], [0, 0]]"
    by (simp add: confusion_matrix_def unique_labels_def count_pairs_def)
  have "\<exists>m. plot_confusion_matrix [0, 0] [1, 0] True = Inr m \<and> m ! 1 = [NaN, NaN]"
    using zero_row_sum_divided_unguarded [OF c, of 1] by (auto simp: numeral_2_eq_2)
  with c show ?thesis by simp
qed

text \<open>
  Claim C10. The rows and columns of the confusion matrix are the labels that occur among
  the true or the predicted labels, in ascending order, and no other class has a row or a
  column. A row that sums to zero belongs to a class that is predicted and never true.
\<close>

theorem confusion_matrix_labels_in_data:
  assumes "confusion_matrix y_true y_pred = Inr cm"
  shows "unique_labels y_true y_pred = sorted_list_of_set (set y_true \<union> set y_pred) \<and>
         length cm = card (set y_true \<union> set y_pred) \<and>
         (\<forall>row \<in> set cm. length row = card (set y_true \<union> set y_pred)) \<and>
         (\<forall>c. c \<notin> set y_true \<and> c \<notin> set y_pred \<longrightarrow> c \<notin> set (unique_labels y_true y_pred)) \<and>
         (\<forall>i < length cm. \<forall>j < length cm.
            cm ! i ! j = count_pairs y_true y_pred (unique_labels y_true y_pred ! i) (unique_labels y_true y_pred ! j)) \<and>
         (\<forall>i < length cm. sum_list (cm ! i) = 0 \<longrightarrow>
            unique_labels y_true y_pred ! i \<in> set y_pred \<and> unique_labels y_true y_pred ! i \<notin> set y_true)"
proof -
  note c = confusion_matrix_Inr [OF assms]
  have len: "length cm = card (set y_true \<union> set y_pred)"
    using c(2) by (simp add: length_unique_labels)
  have rows: "\<forall>row \<in> set cm. length row = card (set y_true \<union> set y_pred)"
    using c(2) by (auto simp: length_unique_labels)
  have absent: "\<forall>c. c \<notin> set y_true \<and> c \<notin> set y_pred \<longrightarrow> c \<notin> set (unique_labels y_true y_pred)"
    by (simp add: set_unique_labels)
  have entries: "\<forall>i < length cm. \<forall>j < length cm.
      cm ! i ! j = count_pairs y_true y_pred (unique_labels y_true y_pred ! i) (unique_labels y_true y_pred ! j)"
    using c(2) by simp
  have zero: "unique_labels y_true y_pred ! i \<in> set y_pred \<and> unique_labels y_true y_pred ! i \<notin> set y_true"
    if i: "i < length cm" and z: "sum_list (cm ! i) = 0" for i
  proof -
    note r = confusion_matrix_row [OF assms i]
    from z r(2) have nt: "unique_labels y_true y_pred ! i \<notin> set y_true"
      using count_list_pos [of y_true "unique_labels y_true y_pred ! i"] by simp
    have "unique_labels y_true y_pred ! i \<in> set (unique_labels y_true y_pred)"
      using r(3) by simp
    with nt show ?thesis by (simp add: set_unique_labels)
  qed
  from len rows absent entries zero unique_labels_sorted_list show ?thesis by blast
qed

theorem confusion_matrix_labels_in_data_witness:
  "confusion_matrix [0, 0, 5] [0, 7, 7] = Inr [[1, 0, 1], [0, 0, 1], [0, 0, 0]] \<and>
   unique_labels [0, 0, 5] [0, 7, 7] = [0, 5, 7] \<and>
   length [[1, 0, 1], [0, 0, 1], [0, 0, 0::nat]] = card (set [0, 0, 5::int] \<union> set [0, 7, 7])"
proof -
  have c: "confusion_matrix [0, 0, 5] [0, 7, 7] = Inr [[1, 0, 1], [0, 0, 1], [0, 0, 0]]"
    by (simp add: confusion_matrix_def unique_labels_def count_pairs_def)
  have u: "unique_labels [0, 0, 5] [0, 7, 7] = [0, 5, 7]"
    by (simp add: unique_labels_def)
  from confusion_matrix_labels_in_data [OF c] c u show ?thesis by blast
qed
section \<open>The passes, step by step\<close>

lemma num_classes_eq: "num_classes = 9"
  by (simp add: num_classes_def activity_classes_def)

lemma chunks_Nil [simp]: "chunks n [] = []"
  by (simp add: chunks.simps)

lemma length_chunks:
  "0 < n \<Longrightarrow> length xs = n * k \<Longrightarrow> length (chunks n xs) = k"
proof (induction k arbitrary: xs)
  case 0
  then show ?case by simp
next
  case (Suc k)
  then have ne: "xs \<noteq> []" and len: "length (drop n xs) = n * k" by auto
  from Suc.IH [OF Suc.prems(1) len] ne Suc.prems(1) show ?case
    by (subst chunks.simps) simp
qed

lemma count_true_le: "count_true bs \<le> length bs"
  by (simp add: count_true_def)

lemma tensor_eq_same_length:
  "tensor_eq a b = Inr eq \<Longrightarrow> length a = length b \<Longrightarrow> length eq = length b"
  by (auto simp: tensor_eq_def)

lemma view_rows_Inr:
  "view_rows xs = Inr rows \<Longrightarrow> rows = chunks num_classes xs"
  by (auto simp: view_rows_def split: if_splits)

lemma view_rows_length:
  "view_rows xs = Inr rows \<Longrightarrow> length xs = num_classes * k \<Longrightarrow> length rows = k"
  using length_chunks [of num_classes xs k] by (auto simp: view_rows_def num_classes_eq split: if_splits)

lemma val_batch_Inr:
  assumes "val_batch ops net b (c, pa, ta) = Inr (c', pa', ta')"
  shows "pa' = pa @ batch_pred ops net b" and "ta' = ta @ snd b" and "c \<le> c'"
    and "length (forward ops (params net) (training net) (fst b)) = num_classes * length (snd b)
         \<Longrightarrow> c' \<le> c + length (snd b) \<and> length (batch_pred ops net b) = length (snd b)"
proof -
  obtain data target where b: "b = (data, target)" by (cases b)
  from assms obtain rows eq where
    rows: "view_rows (forward ops (params net) (training net) data) = Inr rows" and
    eq: "tensor_eq (map argmax rows) target = Inr eq" and
    res: "c' = c + count_true eq" "pa' = pa @ map argmax rows" "ta' = ta @ target"
    by (auto simp: val_batch_def b Let_def split: sum.splits)
  note r = view_rows_Inr [OF rows]
  show "pa' = pa @ batch_pred ops net b" by (simp add: res batch_pred_def b r)
  show "ta' = ta @ snd b" by (simp add: res b)
  show "c \<le> c'" by (simp add: res)
  show "c' \<le> c + length (snd b) \<and> length (batch_pred ops net b) = length (snd b)"
    if "length (forward ops (params net) (training net) (fst b)) = num_classes * length (snd b)"
  proof -
    from that have "length rows = length target"
      using view_rows_length [OF rows] by (simp add: b)
    then have l: "length (map argmax rows) = length target" by simp
    from tensor_eq_same_length [OF eq l] count_true_le [of eq] l
    show ?thesis by (simp add: res b batch_pred_def r)
  qed
qed

lemma val_batches_Inr:
  "val_batches ops net bs (c, pa, ta) = Inr (c', pa', ta') \<Longrightarrow>
   pa' = pa @ concat (map (batch_pred ops net) bs) \<and> ta' = ta @ concat (map snd bs) \<and> c \<le> c'"
proof (induction bs arbitrary: c pa ta)
  case Nil
  then show ?case by simp
next
  case (Cons b bs)
  from Cons.prems obtain c1 pa1 ta1 where
    s: "val_batch ops net b (c, pa, ta) = Inr (c1, pa1, ta1)" and
    r: "val_batches ops net bs (c1, pa1, ta1) = Inr (c', pa', ta')"
    by (auto split: sum.splits)
  from Cons.IH [OF r] val_batch_Inr(1-3) [OF s] show ?case by simp
qed

lemma val_batches_bound:
  "val_batches ops net bs (c, pa, ta) = Inr (c', pa', ta') \<Longrightarrow>
   \<forall>b \<in> set bs. length (forward ops (params net) (training net) (fst b)) = num_classes * length (snd b) \<Longrightarrow>
   c' \<le> c + sum_list (map (\<lambda>b. length (snd b)) bs) \<and>
   length (concat (map (batch_pred ops net) bs)) = length (concat (map snd bs))"
proof (induction bs arbitrary: c pa ta)
  case Nil
  then show ?case by simp
next
  case (Cons b bs)
  from Cons.prems(1) obtain c1 pa1 ta1 where
    s: "val_batch ops net b (c, pa, ta) = Inr (c1, pa1, ta1)" and
    r: "val_batches ops net bs (c1, pa1, ta1) = Inr (c', pa', ta')"
    by (auto split: sum.splits)
  from Cons.prems(2) have hb: "length (forward ops (params net) (training net) (fst b)) = num_classes * length (snd b)"
    and hbs: "\<forall>b \<in> set bs. length (forward ops (params net) (training net) (fst b)) = num_classes * length (snd b)"
    by simp_all
  from Cons.IH [OF r hbs] val_batch_Inr(4) [OF s hb] show ?case by simp
qed

lemma accuracy_Inr:
  "accuracy c n = Inr v \<Longrightarrow> 0 < n \<and> v = 100 * real c / real n \<and> 0 \<le> v"
  by (auto simp: accuracy_def split: if_splits)

lemma accuracy_le_100:
  "accuracy c n = Inr v \<Longrightarrow> c \<le> n \<Longrightarrow> v \<le> 100"
  by (auto simp: accuracy_def divide_le_eq split: if_splits)

lemma save_confusion_matrix_Inr:
  "save_confusion_matrix classes cm = Inr m \<Longrightarrow> m = cm \<and> length cm = length classes"
  by (auto simp: save_confusion_matrix_def split: if_splits)

lemma val_Inr:
  assumes "val ops L st = Inr (st', v)"
  shows "\<exists>c pa ta.
    val_batches ops ((netGaze st)\<lparr>training := False\<rparr>) (stream L) (0, [], []) = Inr (c, pa, ta) \<and>
    accuracy c (dataset_len L) = Inr v \<and>
    netGaze st' = (netGaze st)\<lparr>training := False\<rparr> \<and>
    train_loss st' = train_loss st \<and> train_acc st' = train_acc st \<and> val_acc st' = val_acc st \<and>
    (best_accuracy st < v \<longrightarrow> best_accuracy st' = v \<and>
       (\<exists>m. plot_confusion_matrix ta pa True = Inr m \<and> length m = length activity_classes \<and>
            files st' = files st @ [LogValidation c (dataset_len L) v, SaveModel (params (netGaze st)), SaveConfusionMatrix m])) \<and>
    (\<not> best_accuracy st < v \<longrightarrow> best_accuracy st' = best_accuracy st \<and>
       files st' = files st @ [LogValidation c (dataset_len L) v])"
  using assms
  by (auto simp: val_def Let_def split: sum.splits if_splits dest!: save_confusion_matrix_Inr)

lemma checkpoint_writes_append [simp]:
  "checkpoint_writes (fs @ gs) = checkpoint_writes fs + checkpoint_writes gs"
  by (simp add: checkpoint_writes_def)

lemma confusion_renders_append [simp]:
  "confusion_renders (fs @ gs) = confusion_renders fs + confusion_renders gs"
  by (simp add: confusion_renders_def)

lemma train_batch_Inr:
  assumes "train_batch ops a n epoch i b (st, el, c) = Inr (st', el', c')"
  shows "netGaze st' = sgd_update ops (netGaze st) b"
    and "el' = el @ [batch_loss ops (netGaze st) b]"
    and "best_accuracy st' = best_accuracy st \<and> train_loss st' = train_loss st \<and>
         train_acc st' = train_acc st \<and> val_acc st' = val_acc st"
    and "\<exists>logs. files st' = files st @ logs \<and> checkpoint_writes logs = 0 \<and> confusion_renders logs = 0"
    and "c \<le> c'"
    and "length (forward ops (params (netGaze st)) (training (netGaze st)) (fst b)) = num_classes * length (snd b)
         \<Longrightarrow> c' \<le> c + length (snd b)"
proof -
  obtain data targets where b: "b = (data, targets)" by (cases b)
  let ?net = "netGaze st"
  from assms obtain rows eq where
    rows: "view_rows (forward ops (params ?net) (training ?net) data) = Inr rows" and
    eq: "tensor_eq (map argmax rows) targets = Inr eq" and
    c': "c' = c + count_true eq" and
    el': "el' = el @ [nll_loss ops rows targets]"
    by (auto simp: train_batch_def b Let_def split: sum.splits if_splits)
  note r = view_rows_Inr [OF rows]
  show "el' = el @ [batch_loss ops (netGaze st) b]"
    by (simp add: el' batch_loss_def b r)
  show "c \<le> c'" by (simp add: c')
  show "netGaze st' = sgd_update ops (netGaze st) b"
    using assms by (auto simp: train_batch_def sgd_update_def b Let_def split: sum.splits if_splits)
  show "best_accuracy st' = best_accuracy st \<and> train_loss st' = train_loss st \<and>
         train_acc st' = train_acc st \<and> val_acc st' = val_acc st"
    using assms by (auto simp: train_batch_def b Let_def split: sum.splits if_splits)
  show "\<exists>logs. files st' = files st @ logs \<and> checkpoint_writes logs = 0 \<and> confusion_renders logs = 0"
    using assms
    by (auto simp: train_batch_def b Let_def checkpoint_writes_def confusion_renders_def
        split: sum.splits if_splits)
  show "c' \<le> c + length (snd b)"
    if "length (forward ops (params (netGaze st)) (training (netGaze st)) (fst b)) = num_classes * length (snd b)"
  proof -
    from that have "length rows = length targets"
      using view_rows_length [OF rows] by (simp add: b)
    then have l: "length (map argmax rows) = length targets" by simp
    from tensor_eq_same_length [OF eq l] count_true_le [of eq] show ?thesis by (simp add: c' b)
  qed
qed

lemma train_batch_world:
  assumes "train_batch ops a n epoch i b (st, el, c) = Inr (st', el', c')"
    and "netGaze st2 = netGaze st"
  shows "\<exists>st2'. train_batch ops a n epoch i b (st2, el2, c2) = Inr (st2', el2 @ [batch_loss ops (netGaze st) b], c2 + (c' - c))"
proof -
  obtain data targets where b: "b = (data, targets)" by (cases b)
  let ?net = "netGaze st"
  from assms(1) obtain rows eq where
    rows: "view_rows (forward ops (params ?net) (training ?net) data) = Inr rows" and
    eq: "tensor_eq (map argmax rows) targets = Inr eq" and
    c': "c' = c + count_true eq" and
    len: "length rows = length targets" and
    ok: "log_schedule a \<noteq> 0" "int i mod log_schedule a = 0 \<longrightarrow> n \<noteq> 0"
    by (auto simp: train_batch_def b Let_def split: sum.splits if_splits)
  note r = view_rows_Inr [OF rows]
  show ?thesis
    using rows eq len ok assms(2) by (auto simp: train_batch_def b Let_def c' batch_loss_def r [symmetric])
qed


lemma train_batches_Inr:
  "train_batches ops a n epoch i bs (st, el, c) = Inr (st', el', c') \<Longrightarrow>
   el' = el @ batch_losses ops (netGaze st) bs \<and>
   best_accuracy st' = best_accuracy st \<and> train_loss st' = train_loss st \<and>
   train_acc st' = train_acc st \<and> val_acc st' = val_acc st \<and>
   (\<exists>logs. files st' = files st @ logs \<and> checkpoint_writes logs = 0 \<and> confusion_renders logs = 0) \<and>
   c \<le> c' \<and> training (netGaze st') = training (netGaze st)"
proof (induction bs arbitrary: st el c i)
  case Nil
  then show ?case by (simp add: checkpoint_writes_def confusion_renders_def)
next
  case (Cons b bs)
  from Cons.prems obtain st1 el1 c1 where
    s: "train_batch ops a n epoch i b (st, el, c) = Inr (st1, el1, c1)" and
    r: "train_batches ops a n epoch (Suc i) bs (st1, el1, c1) = Inr (st', el', c')"
    by (auto split: sum.splits)
  note h = train_batch_Inr [OF s]
  from h(4) obtain logs1 where l1: "files st1 = files st @ logs1" "checkpoint_writes logs1 = 0"
    "confusion_renders logs1 = 0" by blast
  from Cons.IH [OF r] obtain logs2 where l2: "files st' = files st1 @ logs2" "checkpoint_writes logs2 = 0"
    "confusion_renders logs2 = 0" by blast
  have "files st' = files st @ (logs1 @ logs2) \<and> checkpoint_writes (logs1 @ logs2) = 0 \<and>
        confusion_renders (logs1 @ logs2) = 0"
    using l1 l2 by simp
  then have logs: "\<exists>logs. files st' = files st @ logs \<and> checkpoint_writes logs = 0 \<and> confusion_renders logs = 0"
    by blast
  have tr: "training (netGaze st1) = training (netGaze st)"
    by (simp add: h(1) sgd_update_def Let_def)
  from Cons.IH [OF r] h(1,2,3,5) logs tr show ?case by simp
qed

lemma train_batches_bound:
  "train_batches ops a n epoch i bs (st, el, c) = Inr (st', el', c') \<Longrightarrow>
   \<forall>b \<in> set bs. \<forall>p m. length (forward ops p m (fst b)) = num_classes * length (snd b) \<Longrightarrow>
   c' \<le> c + sum_list (map (\<lambda>b. length (snd b)) bs)"
proof (induction bs arbitrary: st el c i)
  case Nil
  then show ?case by simp
next
  case (Cons b bs)
  from Cons.prems(1) obtain st1 el1 c1 where
    s: "train_batch ops a n epoch i b (st, el, c) = Inr (st1, el1, c1)" and
    r: "train_batches ops a n epoch (Suc i) bs (st1, el1, c1) = Inr (st', el', c')"
    by (auto split: sum.splits)
  from Cons.prems(2) have hb: "length (forward ops (params (netGaze st)) (training (netGaze st)) (fst b)) = num_classes * length (snd b)"
    and hbs: "\<forall>b \<in> set bs. \<forall>p m. length (forward ops p m (fst b)) = num_classes * length (snd b)"
    by simp_all
  from Cons.IH [OF r hbs] train_batch_Inr(6) [OF s hb] show ?case by simp
qed

lemma train_batches_world:
  "train_batches ops a n epoch i bs (st, el, c) = Inr (st', el', c') \<Longrightarrow>
   netGaze st2 = netGaze st \<Longrightarrow>
   \<exists>st2'. train_batches ops a n epoch i bs (st2, el2, c2) =
            Inr (st2', el2 @ batch_losses ops (netGaze st) bs, c2 + (c' - c)) \<and>
          netGaze st2' = netGaze st'"
proof (induction bs arbitrary: st el c i st2 el2 c2)
  case Nil
  then show ?case by simp
next
  case (Cons b bs)
  from Cons.prems(1) obtain st1 el1 c1 where
    s: "train_batch ops a n epoch i b (st, el, c) = Inr (st1, el1, c1)" and
    r: "train_batches ops a n epoch (Suc i) bs (st1, el1, c1) = Inr (st', el', c')"
    by (auto split: sum.splits)
  from train_batch_world [OF s Cons.prems(2), of el2 c2] obtain st21 where
    s2: "train_batch ops a n epoch i b (st2, el2, c2) = Inr (st21, el2 @ [batch_loss ops (netGaze st) b], c2 + (c1 - c))"
    by blast
  have n1: "netGaze st21 = netGaze st1"
    using train_batch_Inr(1) [OF s] train_batch_Inr(1) [OF s2] Cons.prems(2) by simp
  from Cons.IH [OF r n1, of "el2 @ [batch_loss ops (netGaze st) b]" "c2 + (c1 - c)"] obtain st2' where
    r2: "train_batches ops a n epoch (Suc i) bs (st21, el2 @ [batch_loss ops (netGaze st) b], c2 + (c1 - c)) =
           Inr (st2', (el2 @ [batch_loss ops (netGaze st) b]) @ batch_losses ops (netGaze st1) bs, c2 + (c1 - c) + (c' - c1))"
      and n2: "netGaze st2' = netGaze st'" by blast
  have le: "c \<le> c1" "c1 \<le> c'"
    using train_batch_Inr(5) [OF s] train_batches_Inr [OF r] by simp_all
  then have "c2 + (c1 - c) + (c' - c1) = c2 + (c' - c)" by simp
  with s2 r2 n2 train_batch_Inr(1) [OF s] show ?case by simp
qed

lemma mean_Inr: "mean xs = Inr m \<Longrightarrow> xs \<noteq> [] \<and> m = sum_list xs / real (length xs)"
  by (auto simp: mean_def split: if_splits)

lemma length_batch_losses [simp]: "length (batch_losses ops net bs) = length bs"
  by (induction bs arbitrary: net) simp_all

lemma train_Inr:
  assumes "train ops a L epoch st = Inr (st', l, acc)"
  obtains st1 el c where
    "train_batches ops a (dataset_len L) epoch 0 (stream L) (st\<lparr>netGaze := (netGaze st)\<lparr>training := True\<rparr>\<rparr>, [], 0) = Inr (st1, el, c)"
    "mean el = Inr l" "accuracy c (dataset_len L) = Inr acc"
    "st' = st1\<lparr>files := files st1 @ [LogAvgLoss l, LogTrainAccuracy acc]\<rparr>"
  using assms by (auto simp: train_def Let_def split: sum.splits)

lemma train_frame:
  assumes "train ops a L epoch st = Inr (st', l, acc)"
  shows "best_accuracy st' = best_accuracy st" "train_loss st' = train_loss st"
    "train_acc st' = train_acc st" "val_acc st' = val_acc st"
    "\<exists>logs. files st' = files st @ logs \<and> checkpoint_writes logs = 0 \<and> confusion_renders logs = 0"
    "training (netGaze st') = True"
proof -
  from assms obtain st1 el c where
    b: "train_batches ops a (dataset_len L) epoch 0 (stream L) (st\<lparr>netGaze := (netGaze st)\<lparr>training := True\<rparr>\<rparr>, [], 0) = Inr (st1, el, c)"
    and st': "st' = st1\<lparr>files := files st1 @ [LogAvgLoss l, LogTrainAccuracy acc]\<rparr>"
    by (rule train_Inr)
  note h = train_batches_Inr [OF b]
  from h show "best_accuracy st' = best_accuracy st" "train_loss st' = train_loss st"
    "train_acc st' = train_acc st" "val_acc st' = val_acc st" "training (netGaze st') = True"
    by (simp_all add: st')
  from h obtain logs where l: "files st1 = files st @ logs" "checkpoint_writes logs = 0" "confusion_renders logs = 0"
    by auto
  have "files st' = files st @ (logs @ [LogAvgLoss l, LogTrainAccuracy acc]) \<and>
        checkpoint_writes (logs @ [LogAvgLoss l, LogTrainAccuracy acc]) = 0 \<and>
        confusion_renders (logs @ [LogAvgLoss l, LogTrainAccuracy acc]) = 0"
    using l by (simp add: st' checkpoint_writes_def confusion_renders_def)
  then show "\<exists>logs. files st' = files st @ logs \<and> checkpoint_writes logs = 0 \<and> confusion_renders logs = 0"
    by blast
qed

lemma train_pass_of_train:
  assumes "train ops a L epoch st = Inr (st', l, acc)"
    and "net\<lparr>training := True\<rparr> = (netGaze st)\<lparr>training := True\<rparr>"
  shows "train_pass ops a L epoch net = Inr (netGaze st', l, acc)"
proof -
  from assms(1) obtain st1 el c where
    b: "train_batches ops a (dataset_len L) epoch 0 (stream L) (st\<lparr>netGaze := (netGaze st)\<lparr>training := True\<rparr>\<rparr>, [], 0) = Inr (st1, el, c)"
    and m: "mean el = Inr l" and ac: "accuracy c (dataset_len L) = Inr acc"
    and st': "st' = st1\<lparr>files := files st1 @ [LogAvgLoss l, LogTrainAccuracy acc]\<rparr>"
    by (rule train_Inr)
  let ?w = "(init_world net)\<lparr>netGaze := (netGaze (init_world net))\<lparr>training := True\<rparr>\<rparr>"
  have same: "netGaze ?w = netGaze (st\<lparr>netGaze := (netGaze st)\<lparr>training := True\<rparr>\<rparr>)"
    using assms(2) by (simp add: init_world_def)
  from train_batches_world [OF b same, of "[]" 0] obtain w1 where
    b2: "train_batches ops a (dataset_len L) epoch 0 (stream L) (?w, [], 0) =
          Inr (w1, [] @ batch_losses ops (netGaze (st\<lparr>netGaze := (netGaze st)\<lparr>training := True\<rparr>\<rparr>)) (stream L), 0 + (c - 0))"
    and n: "netGaze w1 = netGaze st1" by blast
  have el: "el = batch_losses ops (netGaze (st\<lparr>netGaze := (netGaze st)\<lparr>training := True\<rparr>\<rparr>)) (stream L)"
    using train_batches_Inr [OF b] by simp
  from b2 have b3: "train_batches ops a (dataset_len L) epoch 0 (stream L) (?w, [], 0) = Inr (w1, el, c)"
    by (simp add: el)
  show ?thesis
    unfolding train_pass_def train_def Let_def by (simp add: b3 m ac n st')
qed
section \<open>One epoch of the supervisor\<close>

lemma train_pass_cong:
  "n1\<lparr>training := True\<rparr> = n2\<lparr>training := True\<rparr> \<Longrightarrow>
   train_pass ops a L i n1 = train_pass ops a L i n2"
  by (simp add: train_pass_def train_def init_world_def)

lemma trained_cong:
  assumes "n1\<lparr>training := True\<rparr> = n2\<lparr>training := True\<rparr>"
    and "trained ops a tls es n1 = Inr r1"
  shows "\<exists>r2. trained ops a tls es n2 = Inr r2 \<and> r2\<lparr>training := True\<rparr> = r1\<lparr>training := True\<rparr>"
proof (cases es)
  case Nil
  with assms show ?thesis by simp
next
  case (Cons i es')
  with assms(2) train_pass_cong [OF assms(1), of ops a "tls i" i] show ?thesis by simp
qed

lemma val_accuracy_of_eval [simp]:
  "val_accuracy_of ops L (net\<lparr>training := b\<rparr>) = val_accuracy_of ops L net"
  by (simp add: val_accuracy_of_def)

lemma main_epochs_step:
  assumes "main_epochs ops a tls vls (i # es) st = Inr st'"
  obtains st7 na l acc v where
    "main_epochs ops a tls vls es st7 = Inr st'"
    "train_pass ops a (tls i) i (netGaze st) = Inr (na, l, acc)"
    "netGaze st7 = na\<lparr>training := False\<rparr>"
    "val_accuracy_of ops (vls i) na = Inr v"
    "train_loss st7 = train_loss st @ [l]" "train_acc st7 = train_acc st @ [acc]"
    "val_acc st7 = val_acc st @ [v]"
    "best_accuracy st7 = max (best_accuracy st) v"
    "checkpoint_writes (files st7) = checkpoint_writes (files st) + (if best_accuracy st < v then 1 else 0)"
    "confusion_renders (files st7) = confusion_renders (files st) + (if best_accuracy st < v then 1 else 0)"
proof -
  from assms obtain st1 l acc where t: "train ops a (tls i) i st = Inr (st1, l, acc)"
    by (auto split: sum.splits)
  define st4 where "st4 = st1\<lparr>train_loss := train_loss st1 @ [l],
    files := files st1 @ [SaveTrainLoss (train_loss st1 @ [l])], train_acc := train_acc st1 @ [acc]\<rparr>"
  from assms t obtain st5 v where v: "val ops (vls i) st4 = Inr (st5, v)"
    by (auto simp: Let_def st4_def split: sum.splits)
  define st7 where "st7 = st5\<lparr>val_acc := val_acc st5 @ [v],
    files := files st5 @ [SaveTrainValAccuracy (train_acc st5) (val_acc st5 @ [v])]\<rparr>"
  from assms t v have r: "main_epochs ops a tls vls es st7 = Inr st'"
    by (auto simp: Let_def st4_def st7_def split: sum.splits)
  note tf = train_frame [OF t]
  from tf(5) obtain logs where logs: "files st1 = files st @ logs" "checkpoint_writes logs = 0"
    "confusion_renders logs = 0" by blast
  have tp: "train_pass ops a (tls i) i (netGaze st) = Inr (netGaze st1, l, acc)"
    by (rule train_pass_of_train [OF t]) simp
  from val_Inr [OF v] obtain c pa ta where
    vb: "val_batches ops ((netGaze st4)\<lparr>training := False\<rparr>) (stream (vls i)) (0, [], []) = Inr (c, pa, ta)"
    and ac: "accuracy c (dataset_len (vls i)) = Inr v"
    and n5: "netGaze st5 = (netGaze st4)\<lparr>training := False\<rparr>"
    and c5: "train_loss st5 = train_loss st4" "train_acc st5 = train_acc st4" "val_acc st5 = val_acc st4"
    and up: "best_accuracy st4 < v \<longrightarrow> best_accuracy st5 = v \<and>
       (\<exists>m. plot_confusion_matrix ta pa True = Inr m \<and>
            files st5 = files st4 @ [LogValidation c (dataset_len (vls i)) v, SaveModel (params (netGaze st4)), SaveConfusionMatrix m])"
    and keep: "\<not> best_accuracy st4 < v \<longrightarrow> best_accuracy st5 = best_accuracy st4 \<and>
       files st5 = files st4 @ [LogValidation c (dataset_len (vls i)) v]"
    by blast
  have b4: "best_accuracy st4 = best_accuracy st" by (simp add: st4_def tf)
  have va: "val_accuracy_of ops (vls i) (netGaze st1) = Inr v"
    using vb ac by (simp add: val_accuracy_of_def st4_def)
  have f4: "checkpoint_writes (files st4) = checkpoint_writes (files st)"
    "confusion_renders (files st4) = confusion_renders (files st)"
    using logs by (simp_all add: st4_def checkpoint_writes_def confusion_renders_def)
  have best: "best_accuracy st7 = max (best_accuracy st) v"
    using up keep b4 by (cases "best_accuracy st < v") (auto simp: st7_def)
  have cw: "checkpoint_writes (files st7) = checkpoint_writes (files st) + (if best_accuracy st < v then 1 else 0)"
    using up keep b4 f4 by (cases "best_accuracy st < v") (auto simp: st7_def checkpoint_writes_def)
  have cr: "confusion_renders (files st7) = confusion_renders (files st) + (if best_accuracy st < v then 1 else 0)"
    using up keep b4 f4 by (cases "best_accuracy st < v") (auto simp: st7_def confusion_renders_def)
  show thesis
  proof (rule that [OF r tp _ va _ _ _ best cw cr])
    show "netGaze st7 = (netGaze st1)\<lparr>training := False\<rparr>" by (simp add: st7_def n5 st4_def)
    show "train_loss st7 = train_loss st @ [l]" by (simp add: st7_def c5 st4_def tf)
    show "train_acc st7 = train_acc st @ [acc]" by (simp add: st7_def c5 st4_def tf)
    show "val_acc st7 = val_acc st @ [v]" by (simp add: st7_def c5 st4_def tf)
  qed
qed


lemma main_epochs_bests:
  "main_epochs ops a tls vls es st = Inr st' \<Longrightarrow>
   \<exists>V. val_acc st' = val_acc st @ V \<and> length V = length es \<and>
       best_accuracy st \<le> best_accuracy st' \<and>
       best_accuracy st' = fold max V (best_accuracy st) \<and>
       checkpoint_writes (files st') = checkpoint_writes (files st) + new_bests (best_accuracy st) V \<and>
       confusion_renders (files st') = confusion_renders (files st) + new_bests (best_accuracy st) V"
proof (induction es arbitrary: st)
  case Nil
  then show ?case by simp
next
  case (Cons i es)
  from Cons.prems obtain st7 na l acc v where
    r: "main_epochs ops a tls vls es st7 = Inr st'" and
    va: "val_acc st7 = val_acc st @ [v]" and
    b: "best_accuracy st7 = max (best_accuracy st) v" and
    cw: "checkpoint_writes (files st7) = checkpoint_writes (files st) + (if best_accuracy st < v then 1 else 0)" and
    cr: "confusion_renders (files st7) = confusion_renders (files st) + (if best_accuracy st < v then 1 else 0)"
    by (rule main_epochs_step)
  from Cons.IH [OF r] obtain V where
    V: "val_acc st' = val_acc st7 @ V" "length V = length es"
      "best_accuracy st7 \<le> best_accuracy st'"
      "best_accuracy st' = fold max V (best_accuracy st7)"
      "checkpoint_writes (files st') = checkpoint_writes (files st7) + new_bests (best_accuracy st7) V"
      "confusion_renders (files st') = confusion_renders (files st7) + new_bests (best_accuracy st7) V"
    by blast
  have m: "max (best_accuracy st) v = (if best_accuracy st < v then v else best_accuracy st)"
    by (simp add: max_def)
  have "val_acc st' = val_acc st @ (v # V)" using V(1) va by simp
  moreover have "length (v # V) = length (i # es)" using V(2) by simp
  moreover have "best_accuracy st \<le> best_accuracy st'" using V(3) b by simp
  moreover have "best_accuracy st' = fold max (v # V) (best_accuracy st)"
    using V(4) b by (simp add: max.commute)
  moreover have "checkpoint_writes (files st') = checkpoint_writes (files st) + new_bests (best_accuracy st) (v # V)"
    using V(5) cw b m by simp
  moreover have "confusion_renders (files st') = confusion_renders (files st) + new_bests (best_accuracy st) (v # V)"
    using V(6) cr b m by simp
  ultimately show ?case by blast
qed
section \<open>The small instance, evaluated\<close>

lemma chunks_numeral_Cons:
  "chunks (numeral k) (x # xs) = take (numeral k) (x # xs) # chunks (numeral k) (drop (numeral k) (x # xs))"
  by (subst chunks.simps) simp

lemmas example_defs = example_ops_def example_args_def example_net_def example_train_loader_def
  example_val_loader_def example_row_def

lemma length_activity_classes: "length activity_classes = 9"
  by (simp add: activity_classes_def)

lemmas pass_defs = train_def train_batch_def val_def val_batch_def view_rows_def num_classes_eq
  save_confusion_matrix_def length_activity_classes
  chunks_numeral_Cons argmax_def tensor_eq_def count_true_def mean_def accuracy_def
  plot_confusion_matrix_def confusion_matrix_def unique_labels_def count_pairs_def
  normalize_rows_def np_divide_def Let_def

lemma example_train_1:
  "train example_ops example_args example_train_loader 1 (init_world example_net) =
   Inr (\<lparr>netGaze = \<lparr>params = 2, grads = 1, training = True, momentum_buf = 2\<rparr>,
         best_accuracy = 0, train_loss = [], train_acc = [], val_acc = [],
         files = [LogStep 1 1 2 0, LogAvgLoss (1 / 2), LogTrainAccuracy 50]\<rparr>, 1 / 2, 50)"
  by (simp add: example_defs pass_defs init_world_def)

lemma example_val_1:
  "val example_ops example_val_loader
     \<lparr>netGaze = \<lparr>params = 2, grads = 1, training = True, momentum_buf = 2\<rparr>,
      best_accuracy = 0, train_loss = [1 / 2], train_acc = [50], val_acc = [],
      files = [LogStep 1 1 2 0, LogAvgLoss (1 / 2), LogTrainAccuracy 50, SaveTrainLoss [1 / 2]]\<rparr> =
   Inr (\<lparr>netGaze = \<lparr>params = 2, grads = 1, training = False, momentum_buf = 2\<rparr>,
         best_accuracy = 20, train_loss = [1 / 2], train_acc = [50], val_acc = [],
         files = [LogStep 1 1 2 0, LogAvgLoss (1 / 2), LogTrainAccuracy 50,
            SaveTrainLoss [1 / 2], LogValidation 2 10 20, SaveModel 2,
            SaveConfusionMatrix example_matrix]\<rparr>, 20)"
  by (simp add: example_defs pass_defs example_matrix_def example_matrix_row_def)

lemma example_train_2:
  "train example_ops example_args example_train_loader 2
     \<lparr>netGaze = \<lparr>params = 2, grads = 1, training = False, momentum_buf = 2\<rparr>,
      best_accuracy = 20, train_loss = [1 / 2], train_acc = [50], val_acc = [20],
      files = [LogStep 1 1 2 0, LogAvgLoss (1 / 2), LogTrainAccuracy 50,
         SaveTrainLoss [1 / 2], LogValidation 2 10 20, SaveModel 2,
         SaveConfusionMatrix example_matrix,
         SaveTrainValAccuracy [50] [20]]\<rparr> =
   Inr (\<lparr>netGaze = \<lparr>params = 4, grads = 1, training = True, momentum_buf = 4\<rparr>,
         best_accuracy = 20, train_loss = [1 / 2], train_acc = [50], val_acc = [20],
         files = [LogStep 1 1 2 0, LogAvgLoss (1 / 2), LogTrainAccuracy 50,
            SaveTrainLoss [1 / 2], LogValidation 2 10 20, SaveModel 2,
            SaveConfusionMatrix example_matrix,
            SaveTrainValAccuracy [50] [20], LogStep 2 1 2 1, LogAvgLoss 1,
            LogTrainAccuracy 0]\<rparr>, 1, 0)"
  by (simp add: example_defs pass_defs)

lemma example_val_2:
  "val example_ops example_val_loader
     \<lparr>netGaze = \<lparr>params = 4, grads = 1, training = True, momentum_buf = 4\<rparr>,
      best_accuracy = 20, train_loss = [1 / 2, 1], train_acc = [50, 0], val_acc = [20],
      files = [LogStep 1 1 2 0, LogAvgLoss (1 / 2), LogTrainAccuracy 50,
         SaveTrainLoss [1 / 2], LogValidation 2 10 20, SaveModel 2,
         SaveConfusionMatrix example_matrix,
         SaveTrainValAccuracy [50] [20], LogStep 2 1 2 1, LogAvgLoss 1,
         LogTrainAccuracy 0, SaveTrainLoss [1 / 2, 1]]\<rparr> =
   Inr (\<lparr>netGaze = \<lparr>params = 4, grads = 1, training = False, momentum_buf = 4\<rparr>,
         best_accuracy = 20, train_loss = [1 / 2, 1], train_acc = [50, 0], val_acc = [20],
         files = [LogStep 1 1 2 0, LogAvgLoss (1 / 2), LogTrainAccuracy 50,
            SaveTrainLoss [1 / 2], LogValidation 2 10 20, SaveModel 2,
            SaveConfusionMatrix example_matrix,
            SaveTrainValAccuracy [50] [20], LogStep 2 1 2 1, LogAvgLoss 1,
            LogTrainAccuracy 0, SaveTrainLoss [1 / 2, 1], LogValidation 2 10 20]\<rparr>, 20)"
  by (simp add: example_defs pass_defs)

lemma example_epochs:
  "main_epochs example_ops example_args example_train_loaders example_val_loaders [1, 2]
     (init_world example_net) =
   Inr \<lparr>netGaze = \<lparr>params = 4, grads = 1, training = False, momentum_buf = 4\<rparr>,
        best_accuracy = 20, train_loss = [1 / 2, 1], train_acc = [50, 0], val_acc = [20, 20],
        files = [LogStep 1 1 2 0, LogAvgLoss (1 / 2), LogTrainAccuracy 50,
           SaveTrainLoss [1 / 2], LogValidation 2 10 20, SaveModel 2,
           SaveConfusionMatrix example_matrix,
           SaveTrainValAccuracy [50] [20], LogStep 2 1 2 1, LogAvgLoss 1,
           LogTrainAccuracy 0, SaveTrainLoss [1 / 2, 1],
           LogValidation 2 10 20, SaveTrainValAccuracy [50, 0] [20, 20]]\<rparr>"
  by (simp add: example_train_1 example_val_1 example_train_2 example_val_2
      example_train_loaders_def example_val_loaders_def del: One_nat_def)

lemma upto_1_2: "[1..2] = [1, 2::int]"
  by (simp add: upto.simps)

lemma example_run:
  "main_loop example_ops example_args example_train_loaders example_val_loaders
     (init_world example_net) =
   Inr \<lparr>netGaze = \<lparr>params = 4, grads = 1, training = False, momentum_buf = 4\<rparr>,
        best_accuracy = 20, train_loss = [1 / 2, 1], train_acc = [50, 0], val_acc = [20, 20],
        files = [LogStep 1 1 2 0, LogAvgLoss (1 / 2), LogTrainAccuracy 50,
           SaveTrainLoss [1 / 2], LogValidation 2 10 20, SaveModel 2,
           SaveConfusionMatrix example_matrix,
           SaveTrainValAccuracy [50] [20], LogStep 2 1 2 1, LogAvgLoss 1,
           LogTrainAccuracy 0, SaveTrainLoss [1 / 2, 1],
           LogValidation 2 10 20, SaveTrainValAccuracy [50, 0] [20, 20]]\<rparr>"
proof -
  have "epochs example_args = 2" by (simp add: example_args_def)
  then show ?thesis by (simp only: main_loop_def upto_1_2 example_epochs)
qed


lemma example_val_missed_1:
  "val example_ops example_val_loader_missed
     \<lparr>netGaze = \<lparr>params = 2, grads = 1, training = True, momentum_buf = 2\<rparr>,
      best_accuracy = 0, train_loss = [1 / 2], train_acc = [50], val_acc = [],
      files = [LogStep 1 1 2 0, LogAvgLoss (1 / 2), LogTrainAccuracy 50, SaveTrainLoss [1 / 2]]\<rparr> =
   Inr (\<lparr>netGaze = \<lparr>params = 2, grads = 1, training = False, momentum_buf = 2\<rparr>,
         best_accuracy = 0, train_loss = [1 / 2], train_acc = [50], val_acc = [],
         files = [LogStep 1 1 2 0, LogAvgLoss (1 / 2), LogTrainAccuracy 50,
            SaveTrainLoss [1 / 2], LogValidation 0 1 0]\<rparr>, 0)"
  by (simp add: example_defs example_val_loader_missed_def pass_defs)

lemma example_train_missed_2:
  "train example_ops example_args example_train_loader 2
     \<lparr>netGaze = \<lparr>params = 2, grads = 1, training = False, momentum_buf = 2\<rparr>,
      best_accuracy = 0, train_loss = [1 / 2], train_acc = [50], val_acc = [0],
      files = [LogStep 1 1 2 0, LogAvgLoss (1 / 2), LogTrainAccuracy 50,
         SaveTrainLoss [1 / 2], LogValidation 0 1 0, SaveTrainValAccuracy [50] [0]]\<rparr> =
   Inr (\<lparr>netGaze = \<lparr>params = 4, grads = 1, training = True, momentum_buf = 4\<rparr>,
         best_accuracy = 0, train_loss = [1 / 2], train_acc = [50], val_acc = [0],
         files = [LogStep 1 1 2 0, LogAvgLoss (1 / 2), LogTrainAccuracy 50,
            SaveTrainLoss [1 / 2], LogValidation 0 1 0, SaveTrainValAccuracy [50] [0],
            LogStep 2 1 2 1, LogAvgLoss 1, LogTrainAccuracy 0]\<rparr>, 1, 0)"
  by (simp add: example_defs pass_defs)

lemma example_val_missed_2:
  "val example_ops example_val_loader_missed
     \<lparr>netGaze = \<lparr>params = 4, grads = 1, training = True, momentum_buf = 4\<rparr>,
      best_accuracy = 0, train_loss = [1 / 2, 1], train_acc = [50, 0], val_acc = [0],
      files = [LogStep 1 1 2 0, LogAvgLoss (1 / 2), LogTrainAccuracy 50,
         SaveTrainLoss [1 / 2], LogValidation 0 1 0, SaveTrainValAccuracy [50] [0],
         LogStep 2 1 2 1, LogAvgLoss 1, LogTrainAccuracy 0, SaveTrainLoss [1 / 2, 1]]\<rparr> =
   Inr (\<lparr>netGaze = \<lparr>params = 4, grads = 1, training = False, momentum_buf = 4\<rparr>,
         best_accuracy = 0, train_loss = [1 / 2, 1], train_acc = [50, 0], val_acc = [0],
         files = [LogStep 1 1 2 0, LogAvgLoss (1 / 2), LogTrainAccuracy 50,
            SaveTrainLoss [1 / 2], LogValidation 0 1 0, SaveTrainValAccuracy [50] [0],
            LogStep 2 1 2 1, LogAvgLoss 1, LogTrainAccuracy 0, SaveTrainLoss [1 / 2, 1],
            LogValidation 0 1 0]\<rparr>, 0)"
  by (simp add: example_defs example_val_loader_missed_def pass_defs)

lemma example_epochs_missed:
  "main_epochs example_ops example_args example_train_loaders example_val_loaders_missed [1, 2]
     (init_world example_net) =
   Inr \<lparr>netGaze = \<lparr>params = 4, grads = 1, training = False, momentum_buf = 4\<rparr>,
        best_accuracy = 0, train_loss = [1 / 2, 1], train_acc = [50, 0], val_acc = [0, 0],
        files = [LogStep 1 1 2 0, LogAvgLoss (1 / 2), LogTrainAccuracy 50,
           SaveTrainLoss [1 / 2], LogValidation 0 1 0, SaveTrainValAccuracy [50] [0],
           LogStep 2 1 2 1, LogAvgLoss 1, LogTrainAccuracy 0, SaveTrainLoss [1 / 2, 1],
           LogValidation 0 1 0, SaveTrainValAccuracy [50, 0] [0, 0]]\<rparr>"
  by (simp add: example_train_1 example_val_missed_1 example_train_missed_2 example_val_missed_2
      example_train_loaders_def example_val_loaders_missed_def del: One_nat_def)

lemma example_val_fresh:
  "val example_ops example_val_loader (init_world example_net) =
   Inr (\<lparr>netGaze = \<lparr>params = 0, grads = 0, training = False, momentum_buf = 0\<rparr>,
         best_accuracy = 20, train_loss = [], train_acc = [], val_acc = [],
         files = [LogValidation 2 10 20, SaveModel 0,
            SaveConfusionMatrix example_matrix]\<rparr>, 20)"
  by (simp add: example_defs pass_defs example_matrix_def example_matrix_row_def init_world_def)

lemma example_train_eq:
  "train example_ops example_args example_train_loader 1 (init_world example_net) =
   Inr (example_trained, 1 / 2, 50)"
  unfolding example_trained_def by (rule example_train_1)

lemma example_val_eq:
  "val example_ops example_val_loader (init_world example_net) = Inr (example_validated, 20)"
  unfolding example_validated_def by (rule example_val_fresh)

lemma example_epochs_eq:
  "main_epochs example_ops example_args example_train_loaders example_val_loaders [1, 2]
     (init_world example_net) = Inr example_final"
  unfolding example_final_def by (rule example_epochs)

lemma example_run_eq:
  "main_loop example_ops example_args example_train_loaders example_val_loaders
     (init_world example_net) = Inr example_final"
  unfolding example_final_def by (rule example_run)

lemma example_epochs_missed_eq:
  "main_epochs example_ops example_args example_train_loaders example_val_loaders_missed [1, 2]
     (init_world example_net) = Inr example_final_missed"
  unfolding example_final_missed_def by (rule example_epochs_missed)

lemma example_run_missed_eq:
  "main_loop example_ops example_args example_train_loaders example_val_loaders_missed
     (init_world example_net) = Inr example_final_missed"
proof -
  have "epochs example_args = 2" by (simp add: example_args_def)
  then show ?thesis by (simp only: main_loop_def upto_1_2 example_epochs_missed_eq)
qed

lemma example_val_again:
  "val example_ops example_val_loader example_validated =
   Inr (example_validated\<lparr>files := files example_validated @ [LogValidation 2 10 20]\<rparr>, 20)"
  by (simp add: example_validated_def example_defs pass_defs)
section \<open>Properties of the passes and of the supervisor\<close>

subsection \<open>The best accuracy and the checkpoint\<close>

text \<open>
  Claim C1, as amended. \<^verbatim>\<open>best_accuracy\<close> starts at 0. A validation pass that returns never
  lowers it, and it writes the checkpoint and draws the confusion matrix exactly when its
  accuracy is strictly above \<^verbatim>\<open>best_accuracy\<close> as it stands at the comparison; a training
  pass changes neither. Over a run the checkpoint is written once for every epoch whose
  validation accuracy strictly exceeds the running maximum. Of two consecutive epochs with
  the same validation accuracy the second never writes, so together they write once when
  the first exceeds the best accuracy before it, and not at all otherwise.
\<close>

theorem best_accuracy_checkpoint_policy:
  "best_accuracy (init_world net) = 0 \<and>
   (val ops L st = Inr (st1, v) \<longrightarrow>
      best_accuracy st \<le> best_accuracy st1 \<and>
      (best_accuracy st < v \<longrightarrow> best_accuracy st1 = v \<and>
         (\<exists>c m. files st1 = files st @
            [LogValidation c (dataset_len L) v, SaveModel (params (netGaze st)), SaveConfusionMatrix m])) \<and>
      (\<not> best_accuracy st < v \<longrightarrow> best_accuracy st1 = best_accuracy st \<and>
         (\<exists>c. files st1 = files st @ [LogValidation c (dataset_len L) v])) \<and>
      (checkpoint_writes (files st1) = checkpoint_writes (files st) + 1 \<longleftrightarrow> best_accuracy st < v) \<and>
      (confusion_renders (files st1) = confusion_renders (files st) + 1 \<longleftrightarrow> best_accuracy st < v)) \<and>
   (train ops a T epoch sta = Inr (sta1, l, acc) \<longrightarrow>
      best_accuracy sta1 = best_accuracy sta \<and>
      checkpoint_writes (files sta1) = checkpoint_writes (files sta) \<and>
      confusion_renders (files sta1) = confusion_renders (files sta)) \<and>
   (main_epochs ops a tls vls es stb = Inr stb1 \<longrightarrow>
      (\<exists>V. val_acc stb1 = val_acc stb @ V \<and> length V = length es \<and>
           best_accuracy stb \<le> best_accuracy stb1 \<and>
           best_accuracy stb1 = fold max V (best_accuracy stb) \<and>
           checkpoint_writes (files stb1) = checkpoint_writes (files stb) + new_bests (best_accuracy stb) V \<and>
           confusion_renders (files stb1) = confusion_renders (files stb) + new_bests (best_accuracy stb) V)) \<and>
   (main_epochs ops a tls vls [i, j] stc = Inr stc1 \<and> val_acc stc1 = val_acc stc @ [w, w] \<longrightarrow>
      checkpoint_writes (files stc1) =
        checkpoint_writes (files stc) + (if best_accuracy stc < w then 1 else 0))"
proof (intro conjI impI)
  show "best_accuracy (init_world net) = 0" by (simp add: init_world_def)
next
  assume v: "val ops L st = Inr (st1, v)"
  from val_Inr [OF v] obtain c pa ta where
    up: "best_accuracy st < v \<longrightarrow> best_accuracy st1 = v \<and>
       (\<exists>m. plot_confusion_matrix ta pa True = Inr m \<and> length m = length activity_classes \<and>
            files st1 = files st @ [LogValidation c (dataset_len L) v, SaveModel (params (netGaze st)), SaveConfusionMatrix m])"
    and keep: "\<not> best_accuracy st < v \<longrightarrow> best_accuracy st1 = best_accuracy st \<and>
       files st1 = files st @ [LogValidation c (dataset_len L) v]"
    by blast
  show "best_accuracy st \<le> best_accuracy st1"
    using up keep by (cases "best_accuracy st < v") auto
  show "best_accuracy st1 = v" if "best_accuracy st < v" using up that by simp
  show "\<exists>c m. files st1 = files st @
            [LogValidation c (dataset_len L) v, SaveModel (params (netGaze st)), SaveConfusionMatrix m]"
    if "best_accuracy st < v" using up that by blast
  show "best_accuracy st1 = best_accuracy st" if "\<not> best_accuracy st < v" using keep that by simp
  show "\<exists>c. files st1 = files st @ [LogValidation c (dataset_len L) v]"
    if "\<not> best_accuracy st < v" using keep that by blast
  show "(checkpoint_writes (files st1) = checkpoint_writes (files st) + 1) = (best_accuracy st < v)"
    using up keep by (cases "best_accuracy st < v") (auto simp: checkpoint_writes_def)
  show "(confusion_renders (files st1) = confusion_renders (files st) + 1) = (best_accuracy st < v)"
    using up keep by (cases "best_accuracy st < v") (auto simp: confusion_renders_def)
next
  assume t: "train ops a T epoch sta = Inr (sta1, l, acc)"
  note tf = train_frame [OF t]
  show "best_accuracy sta1 = best_accuracy sta" by (rule tf(1))
  from tf(5) show "checkpoint_writes (files sta1) = checkpoint_writes (files sta)" by auto
  from tf(5) show "confusion_renders (files sta1) = confusion_renders (files sta)" by auto
next
  assume "main_epochs ops a tls vls es stb = Inr stb1"
  then show "\<exists>V. val_acc stb1 = val_acc stb @ V \<and> length V = length es \<and>
           best_accuracy stb \<le> best_accuracy stb1 \<and>
           best_accuracy stb1 = fold max V (best_accuracy stb) \<and>
           checkpoint_writes (files stb1) = checkpoint_writes (files stb) + new_bests (best_accuracy stb) V \<and>
           confusion_renders (files stb1) = confusion_renders (files stb) + new_bests (best_accuracy stb) V"
    by (rule main_epochs_bests)
next
  assume h: "main_epochs ops a tls vls [i, j] stc = Inr stc1 \<and> val_acc stc1 = val_acc stc @ [w, w]"
  from main_epochs_bests [of ops a tls vls "[i, j]" stc stc1] h obtain V where
    V: "val_acc stc1 = val_acc stc @ V"
    "checkpoint_writes (files stc1) = checkpoint_writes (files stc) + new_bests (best_accuracy stc) V"
    by blast
  from V(1) h have "V = [w, w]" by simp
  with V(2) show "checkpoint_writes (files stc1) =
        checkpoint_writes (files stc) + (if best_accuracy stc < w then 1 else 0)"
    by simp
qed

theorem best_accuracy_checkpoint_policy_witness:
  "val example_ops example_val_loader (init_world example_net) = Inr (example_validated, 20) \<and>
   best_accuracy (init_world example_net) < 20 \<and>
   checkpoint_writes (files example_validated) = checkpoint_writes (files (init_world example_net)) + 1 \<and>
   val example_ops example_val_loader example_validated =
     Inr (example_validated\<lparr>files := files example_validated @ [LogValidation 2 10 20]\<rparr>, 20) \<and>
   \<not> best_accuracy example_validated < 20 \<and>
   best_accuracy (example_validated\<lparr>files := files example_validated @ [LogValidation 2 10 20]\<rparr>) =
     best_accuracy example_validated \<and>
   checkpoint_writes (files (example_validated\<lparr>files := files example_validated @ [LogValidation 2 10 20]\<rparr>)) \<noteq>
     checkpoint_writes (files example_validated) + 1 \<and>
   train example_ops example_args example_train_loader 1 (init_world example_net) =
     Inr (example_trained, 1 / 2, 50) \<and>
   checkpoint_writes (files example_trained) = checkpoint_writes (files (init_world example_net)) \<and>
   main_epochs example_ops example_args example_train_loaders example_val_loaders [1, 2]
     (init_world example_net) = Inr example_final \<and>
   val_acc example_final = val_acc (init_world example_net) @ [20, 20] \<and>
   checkpoint_writes (files example_final) = checkpoint_writes (files (init_world example_net)) + 1"
proof -
  note t = best_accuracy_checkpoint_policy [where net = example_net and ops = example_ops
      and L = example_val_loader and st = "init_world example_net" and ?st1.0 = example_validated
      and v = 20 and a = example_args and T = example_train_loader and epoch = 1
      and sta = "init_world example_net" and ?sta1.0 = example_trained and l = "1 / 2" and acc = 50
      and tls = example_train_loaders and vls = example_val_loaders and es = "[1, 2]"
      and stb = "init_world example_net" and ?stb1.0 = example_final and i = 1 and j = 2
      and stc = "init_world example_net" and ?stc1.0 = example_final and w = 20]
  note u = best_accuracy_checkpoint_policy [where net = example_net and ops = example_ops
      and L = example_val_loader and st = example_validated
      and ?st1.0 = "example_validated\<lparr>files := files example_validated @ [LogValidation 2 10 20]\<rparr>"
      and v = 20]
  have b: "best_accuracy (init_world example_net) < 20" by (simp add: init_world_def)
  have nb: "\<not> best_accuracy example_validated < 20" by (simp add: example_validated_def)
  have va: "val_acc example_final = val_acc (init_world example_net) @ [20, 20]"
    by (simp add: example_final_def init_world_def)
  from u example_val_again nb
  have second: "best_accuracy (example_validated\<lparr>files := files example_validated @ [LogValidation 2 10 20]\<rparr>) =
     best_accuracy example_validated \<and>
   checkpoint_writes (files (example_validated\<lparr>files := files example_validated @ [LogValidation 2 10 20]\<rparr>)) \<noteq>
     checkpoint_writes (files example_validated) + 1"
    by blast
  from t example_val_eq example_train_eq example_epochs_eq b va
  have first: "checkpoint_writes (files example_validated) = checkpoint_writes (files (init_world example_net)) + 1 \<and>
    checkpoint_writes (files example_trained) = checkpoint_writes (files (init_world example_net)) \<and>
    checkpoint_writes (files example_final) = checkpoint_writes (files (init_world example_net)) + 1"
    by simp
  from first second example_val_eq example_val_again example_train_eq example_epochs_eq b nb va
  show ?thesis by blast
qed

text \<open>
  Two epochs in which no validation example is predicted correctly: both accuracies are 0,
  which is not above the initial best accuracy, and no checkpoint is written.
\<close>

theorem equal_accuracy_epochs_counterexample:
  "main_loop example_ops example_args example_train_loaders example_val_loaders_missed
     (init_world example_net) = Inr example_final_missed \<and>
   val_acc example_final_missed = [0, 0] \<and>
   checkpoint_writes (files example_final_missed) = 0 \<and>
   checkpoint_writes (files example_final_missed) \<noteq> 1"
  by (simp add: example_run_missed_eq) (simp add: example_final_missed_def checkpoint_writes_def)

subsection \<open>The training statistics\<close>

lemma mean_mset:
  assumes "mset ls' = mset ls" and "mean ls = Inr m"
  shows "mean ls' = Inr m"
proof -
  from assms(1) have s: "sum_list ls' = sum_list ls"
    by (metis sum_mset_sum_list)
  from assms(1) have l: "length ls' = length ls"
    by (metis size_mset)
  from assms(2) l s show ?thesis by (auto simp: mean_def split: if_splits)
qed

text \<open>
  Claim C2. A training pass that returns has at least one batch, and its average loss is
  the sum of the losses of its batches, each under the parameters in force when the batch
  is reached, over their number. Any reordering of these losses has the same mean.
\<close>

theorem train_average_loss_is_mean:
  assumes "train ops a L epoch st = Inr (st', avg_loss, acc)"
  shows "stream L \<noteq> [] \<and>
         length (batch_losses ops ((netGaze st)\<lparr>training := True\<rparr>) (stream L)) = length (stream L) \<and>
         avg_loss = sum_list (batch_losses ops ((netGaze st)\<lparr>training := True\<rparr>) (stream L))
                      / real (length (stream L)) \<and>
         (\<forall>ls. mset ls = mset (batch_losses ops ((netGaze st)\<lparr>training := True\<rparr>) (stream L))
               \<longrightarrow> mean ls = Inr avg_loss)"
proof -
  let ?ls = "batch_losses ops ((netGaze st)\<lparr>training := True\<rparr>) (stream L)"
  from assms obtain st1 el c where
    b: "train_batches ops a (dataset_len L) epoch 0 (stream L) (st\<lparr>netGaze := (netGaze st)\<lparr>training := True\<rparr>\<rparr>, [], 0) = Inr (st1, el, c)"
    and m: "mean el = Inr avg_loss"
    by (rule train_Inr)
  from train_batches_Inr [OF b] have el: "el = ?ls" by simp
  from mean_Inr [OF m] have ne: "el \<noteq> []" and avg: "avg_loss = sum_list el / real (length el)"
    by simp_all
  from ne el have "stream L \<noteq> []" by auto
  moreover have "length ?ls = length (stream L)" by simp
  moreover from avg el have "avg_loss = sum_list ?ls / real (length (stream L))" by simp
  moreover have "\<forall>ls. mset ls = mset ?ls \<longrightarrow> mean ls = Inr avg_loss"
    using mean_mset m el by blast
  ultimately show ?thesis by blast
qed

lemma example_batch_losses:
  "batch_losses example_ops ((netGaze (init_world example_net))\<lparr>training := True\<rparr>) (stream example_train_loader)
   = [0, 1]"
  by (simp add: example_defs init_world_def batch_loss_def sgd_update_def num_classes_eq
      chunks_numeral_Cons Let_def)

theorem train_average_loss_is_mean_witness:
  "train example_ops example_args example_train_loader 1 (init_world example_net) =
     Inr (example_trained, 1 / 2, 50) \<and>
   batch_losses example_ops ((netGaze (init_world example_net))\<lparr>training := True\<rparr>)
     (stream example_train_loader) = [0, 1] \<and>
   (1 / 2 :: real) = sum_list [0, 1] / real (length (stream example_train_loader)) \<and>
   mean [1, 0] = Inr (1 / 2)"
proof -
  note t = train_average_loss_is_mean [OF example_train_eq]
  have "mset [1, 0 :: real] = mset [0, 1]" by simp
  with t example_batch_losses have "mean [1, 0] = Inr (1 / 2)" by metis
  moreover from t example_batch_losses
  have "(1 / 2 :: real) = sum_list [0, 1] / real (length (stream example_train_loader))" by metis
  ultimately show ?thesis using example_train_eq example_batch_losses by blast
qed

lemma view_rows_Inl: "view_rows xs = Inl e \<Longrightarrow> e = RuntimeError"
  by (auto simp: view_rows_def split: if_splits)

lemma tensor_eq_Inl: "tensor_eq x y = Inl e \<Longrightarrow> e = RuntimeError"
  by (auto simp: tensor_eq_def split: if_splits)

lemma train_batch_Inl:
  "train_batch ops a n epoch i b acc = Inl e \<Longrightarrow>
   e = RuntimeError \<or> e = ZeroDivisionError \<or> e = ValueError"
  by (auto simp: train_batch_def Let_def split: prod.splits sum.splits if_splits
      dest: view_rows_Inl tensor_eq_Inl)

lemma train_batches_Inl:
  "train_batches ops a n epoch i bs acc = Inl e \<Longrightarrow>
   e = RuntimeError \<or> e = ZeroDivisionError \<or> e = ValueError"
proof (induction bs arbitrary: i acc)
  case Nil
  then show ?case by simp
next
  case (Cons b bs)
  then show ?case by (auto split: sum.splits dest: train_batch_Inl)
qed

text \<open>The mean is the only place where a training pass can raise \<^verbatim>\<open>StatisticsError\<close>.\<close>

lemma train_StatisticsError:
  "(stream L = [] \<longrightarrow> train ops a L epoch st = Inl StatisticsError) \<and>
   (train ops a L epoch st = Inl StatisticsError \<longrightarrow> stream L = []) \<and>
   train ops a L epoch st \<noteq> Inl EmptyDatasetError"
proof (intro conjI impI)
  assume "stream L = []"
  then show "train ops a L epoch st = Inl StatisticsError"
    by (simp add: train_def mean_def)
next
  let ?run = "train_batches ops a (dataset_len L) epoch 0 (stream L)
      (st\<lparr>netGaze := (netGaze st)\<lparr>training := True\<rparr>\<rparr>, [], 0)"
  assume f: "train ops a L epoch st = Inl StatisticsError"
  show "stream L = []"
  proof (cases ?run)
    case (Inl e)
    with f have "e = StatisticsError" by (simp add: train_def)
    with train_batches_Inl [OF Inl] show ?thesis by simp
  next
    case (Inr r)
    obtain st1 el c where r: "r = (st1, el, c)" by (cases r)
    from train_batches_Inr [OF Inr [unfolded r]] have el: "length el = length (stream L)" by simp
    from f Inr r have "el = []"
      by (auto simp: train_def mean_def accuracy_def Let_def split: if_splits sum.splits)
    with el show ?thesis by simp
  qed
next
  let ?run = "train_batches ops a (dataset_len L) epoch 0 (stream L)
      (st\<lparr>netGaze := (netGaze st)\<lparr>training := True\<rparr>\<rparr>, [], 0)"
  show "train ops a L epoch st \<noteq> Inl EmptyDatasetError"
  proof
    assume f: "train ops a L epoch st = Inl EmptyDatasetError"
    show False
    proof (cases ?run)
      case (Inl e)
      with f have "e = EmptyDatasetError" by (simp add: train_def)
      with train_batches_Inl [OF Inl] show ?thesis by simp
    next
      case (Inr r)
      with f show ?thesis
        by (auto simp: train_def mean_def accuracy_def Let_def split: if_splits sum.splits prod.splits)
    qed
  qed
qed

text \<open>A loader that is built has batches, and its batches hold the whole dataset.\<close>

lemma chunks_not_Nil: "0 < n \<Longrightarrow> xs \<noteq> [] \<Longrightarrow> chunks n xs \<noteq> []"
  by (subst chunks.simps) simp

lemma sum_length_chunks: "0 < n \<Longrightarrow> sum_list (map length (chunks n xs)) = length xs"
proof (induction n xs rule: chunks.induct)
  case (1 n xs)
  show ?case
  proof (cases "xs = []")
    case True
    then show ?thesis by simp
  next
    case False
    with "1.prems" "1.IH" have "sum_list (map length (chunks n (drop n xs))) = length (drop n xs)"
      by simp
    with False "1.prems" show ?thesis by (subst chunks.simps) simp
  qed
qed

lemma DataLoader_Inr:
  assumes "DataLoader dataset bs order_in = Inr loader"
  shows "dataset \<noteq> []" and "0 < bs"
    and "loader i = \<lparr>dataset_len = length dataset,
           stream = map collate (chunks (nat bs) (order_in i dataset))\<rparr>"
  using assms by (auto simp: DataLoader_def split: if_splits)

lemma DataLoader_stream:
  assumes "DataLoader dataset bs order_in = Inr loader"
    and "mset (order_in i dataset) = mset dataset"
  shows "stream (loader i) \<noteq> []" and "covers_dataset (loader i)"
proof -
  note d = DataLoader_Inr [OF assms(1)]
  from assms(2) d(1) have ne: "order_in i dataset \<noteq> []" by auto
  from assms(2) have len: "length (order_in i dataset) = length dataset"
    by (metis size_mset)
  from d(2) have n: "0 < nat bs" by simp
  from chunks_not_Nil [OF n ne] show "stream (loader i) \<noteq> []" by (simp add: d(3))
  have eq: "map (\<lambda>b. length (snd b)) (map collate (chunks (nat bs) (order_in i dataset))) =
        map length (chunks (nat bs) (order_in i dataset))"
    by (simp add: collate_def)
  have "sum_list (map (\<lambda>b. length (snd b)) (map collate (chunks (nat bs) (order_in i dataset)))) =
        length dataset"
    unfolding eq using sum_length_chunks [OF n, of "order_in i dataset"] len by simp
  then show "covers_dataset (loader i)"
    by (simp add: covers_dataset_def d(3) del: map_map)
qed

text \<open>
  Claim C3, as amended. A training split without examples makes the run fail before any
  training epoch: building the training loader at line 116 raises the \<^verbatim>\<open>ValueError\<close> of
  torch, and the script has no \<^verbatim>\<open>EmptyDatasetError\<close>. A loader that is built yields at
  least one batch in every epoch, whatever order is drawn, and these batches hold every
  example of the dataset; so a training pass never takes the mean of an empty list of
  losses, and raises neither \<^verbatim>\<open>StatisticsError\<close> nor \<^verbatim>\<open>EmptyDatasetError\<close>.
\<close>

theorem empty_training_split_fails:
  "script ops a [] val_set train_order val_order net = Inl ValueError \<and>
   (DataLoader train_set (batch_size a) train_order = Inr train_loader \<and>
    mset (train_order epoch train_set) = mset train_set \<longrightarrow>
      train_set \<noteq> [] \<and> stream (train_loader epoch) \<noteq> [] \<and>
      covers_dataset (train_loader epoch) \<and>
      dataset_len (train_loader epoch) = length train_set \<and>
      train ops a (train_loader epoch) epoch st \<noteq> Inl StatisticsError \<and>
      train ops a (train_loader epoch) epoch st \<noteq> Inl EmptyDatasetError)"
proof (intro conjI impI)
  show "script ops a [] val_set train_order val_order net = Inl ValueError"
    by (simp add: script_def DataLoader_def)
next
  assume h: "DataLoader train_set (batch_size a) train_order = Inr train_loader \<and>
    mset (train_order epoch train_set) = mset train_set"
  then have d: "DataLoader train_set (batch_size a) train_order = Inr train_loader"
    and m: "mset (train_order epoch train_set) = mset train_set" by simp_all
  show "train_set \<noteq> []" by (rule DataLoader_Inr(1) [OF d])
  show ne: "stream (train_loader epoch) \<noteq> []" by (rule DataLoader_stream(1) [OF d m])
  show "covers_dataset (train_loader epoch)" by (rule DataLoader_stream(2) [OF d m])
  show "dataset_len (train_loader epoch) = length train_set"
    by (simp add: DataLoader_Inr(3) [OF d])
  from ne train_StatisticsError [of "train_loader epoch" ops a epoch st]
  show "train ops a (train_loader epoch) epoch st \<noteq> Inl StatisticsError" by blast
  from train_StatisticsError [of "train_loader epoch" ops a epoch st]
  show "train ops a (train_loader epoch) epoch st \<noteq> Inl EmptyDatasetError" by blast
qed

lemma chunks_Suc_0_Cons: "chunks (Suc 0) (x # xs) = [x] # chunks (Suc 0) xs"
  by (subst chunks.simps) simp

lemma example_DataLoader:
  "DataLoader example_train_set (batch_size example_args) example_order = Inr example_train_loaders"
proof -
  have "(\<lambda>i. \<lparr>dataset_len = length example_train_set,
          stream = map collate (chunks (nat (batch_size example_args)) (example_order i example_train_set))\<rparr>) =
        example_train_loaders"
    by (rule ext)
      (simp add: example_train_loaders_def example_train_loader_def example_train_set_def
        example_args_def example_order_def collate_def chunks_Suc_0_Cons)
  then show ?thesis
    by (simp add: DataLoader_def example_train_set_def example_args_def)
qed

theorem empty_training_split_fails_witness:
  "DataLoader example_train_set (batch_size example_args) example_order = Inr example_train_loaders \<and>
   mset (example_order 2 example_train_set) = mset example_train_set \<and>
   stream (example_train_loaders 2) \<noteq> [] \<and>
   train example_ops example_args (example_train_loaders 2) 2 example_validated \<noteq> Inl StatisticsError"
proof -
  have m: "mset (example_order 2 example_train_set) = mset example_train_set"
    by (simp add: example_order_def)
  from empty_training_split_fails [of example_ops example_args example_val_set example_order
      example_order example_net example_train_set example_train_loaders 2 example_validated]
    example_DataLoader m
  show ?thesis by blast
qed

text \<open>
  The small instance with an empty training set: the run ends at line 116, and the error is
  the one of the loader.
\<close>

theorem empty_training_split_counterexample:
  "script example_ops example_args [] example_val_set example_order example_order example_net =
     Inl ValueError \<and>
   script example_ops example_args [] example_val_set example_order example_order example_net \<noteq>
     Inl EmptyDatasetError"
  by (simp add: script_def DataLoader_def)

text \<open>
  Claim C6. For a loader that yields every example of its dataset in exactly one batch, and
  a network that scores one row per target, a pass that returns has counted at most as
  many correct predictions as the dataset has examples; the accuracy it reports is 100
  times that count over the dataset's length, and lies between 0 and 100. This holds for
  the validation pass and for the training pass.
\<close>

theorem pass_accuracy_bounds:
  assumes "covers_dataset L" and "one_row_per_target ops L"
    and "covers_dataset T" and "one_row_per_target ops T"
  shows "(val ops L st = Inr (st', v) \<longrightarrow>
           (\<exists>correct pred_all target_all.
              val_batches ops ((netGaze st)\<lparr>training := False\<rparr>) (stream L) (0, [], []) =
                Inr (correct, pred_all, target_all) \<and>
              correct \<le> dataset_len L \<and> v = 100 * real correct / real (dataset_len L) \<and>
              0 \<le> v \<and> v \<le> 100)) \<and>
         (train ops a T epoch sta = Inr (sta', avg_loss, acc) \<longrightarrow>
           (\<exists>st1 epoch_loss correct.
              train_batches ops a (dataset_len T) epoch 0 (stream T)
                (sta\<lparr>netGaze := (netGaze sta)\<lparr>training := True\<rparr>\<rparr>, [], 0) = Inr (st1, epoch_loss, correct) \<and>
              correct \<le> dataset_len T \<and> acc = 100 * real correct / real (dataset_len T) \<and>
              0 \<le> acc \<and> acc \<le> 100))"
proof (intro conjI impI)
  assume v: "val ops L st = Inr (st', v)"
  from val_Inr [OF v] obtain c pa ta where
    vb: "val_batches ops ((netGaze st)\<lparr>training := False\<rparr>) (stream L) (0, [], []) = Inr (c, pa, ta)"
    and ac: "accuracy c (dataset_len L) = Inr v"
    by blast
  from assms(2) have rows: "\<forall>b \<in> set (stream L).
      length (forward ops (params ((netGaze st)\<lparr>training := False\<rparr>))
        (training ((netGaze st)\<lparr>training := False\<rparr>)) (fst b)) = num_classes * length (snd b)"
    by (simp add: one_row_per_target_def)
  from val_batches_bound [OF vb rows] assms(1) have le: "c \<le> dataset_len L"
    by (simp add: covers_dataset_def)
  from accuracy_Inr [OF ac] accuracy_le_100 [OF ac le] vb le
  show "\<exists>correct pred_all target_all.
              val_batches ops ((netGaze st)\<lparr>training := False\<rparr>) (stream L) (0, [], []) =
                Inr (correct, pred_all, target_all) \<and>
              correct \<le> dataset_len L \<and> v = 100 * real correct / real (dataset_len L) \<and>
              0 \<le> v \<and> v \<le> 100"
    by blast
next
  assume t: "train ops a T epoch sta = Inr (sta', avg_loss, acc)"
  from t obtain st1 el c where
    b: "train_batches ops a (dataset_len T) epoch 0 (stream T) (sta\<lparr>netGaze := (netGaze sta)\<lparr>training := True\<rparr>\<rparr>, [], 0) = Inr (st1, el, c)"
    and ac: "accuracy c (dataset_len T) = Inr acc"
    by (rule train_Inr)
  from assms(4) have rows: "\<forall>b \<in> set (stream T). \<forall>p m.
      length (forward ops p m (fst b)) = num_classes * length (snd b)"
    by (simp add: one_row_per_target_def)
  from train_batches_bound [OF b rows] assms(3) have le: "c \<le> dataset_len T"
    by (simp add: covers_dataset_def)
  from accuracy_Inr [OF ac] accuracy_le_100 [OF ac le] b le
  show "\<exists>st1 epoch_loss correct.
              train_batches ops a (dataset_len T) epoch 0 (stream T)
                (sta\<lparr>netGaze := (netGaze sta)\<lparr>training := True\<rparr>\<rparr>, [], 0) = Inr (st1, epoch_loss, correct) \<and>
              correct \<le> dataset_len T \<and> acc = 100 * real correct / real (dataset_len T) \<and>
              0 \<le> acc \<and> acc \<le> 100"
    by blast
qed

lemma length_example_row: "length (example_row c) = 9"
  by (simp add: example_row_def)

lemma example_loaders_ok:
  "covers_dataset example_val_loader" "one_row_per_target example_ops example_val_loader"
  "covers_dataset example_train_loader" "one_row_per_target example_ops example_train_loader"
  by (simp_all add: covers_dataset_def one_row_per_target_def example_val_loader_def
      example_train_loader_def example_ops_def length_example_row num_classes_eq)

theorem pass_accuracy_bounds_witness:
  "covers_dataset example_val_loader \<and> one_row_per_target example_ops example_val_loader \<and>
   covers_dataset example_train_loader \<and> one_row_per_target example_ops example_train_loader \<and>
   val example_ops example_val_loader (init_world example_net) = Inr (example_validated, 20) \<and>
   train example_ops example_args example_train_loader 1 (init_world example_net) =
     Inr (example_trained, 1 / 2, 50) \<and>
   (0::real) \<le> 20 \<and> (20::real) \<le> 100 \<and>
   (\<exists>correct. correct \<le> dataset_len example_val_loader \<and>
      (20::real) = 100 * real correct / real (dataset_len example_val_loader))"
proof -
  note t = pass_accuracy_bounds [OF example_loaders_ok, of "init_world example_net" example_validated 20
      example_args 1 "init_world example_net" example_trained "1 / 2" 50]
  from t example_val_eq have "\<exists>correct. correct \<le> dataset_len example_val_loader \<and>
      (20::real) = 100 * real correct / real (dataset_len example_val_loader)"
    by blast
  with example_loaders_ok example_val_eq example_train_eq show ?thesis by simp
qed

subsection \<open>The validation pass\<close>

text \<open>
  Claim C8. A validation pass that returns leaves the parameters, their gradients and the
  optimizer's buffers as they were, and the network in evaluation mode. It goes through
  the stream once: the targets it collects are those of the batches in order, and the
  predictions are those of the unchanged parameters in evaluation mode.
\<close>

theorem val_leaves_parameters_unchanged:
  assumes "val ops L st = Inr (st', v)"
  shows "params (netGaze st') = params (netGaze st) \<and>
         grads (netGaze st') = grads (netGaze st) \<and>
         momentum_buf (netGaze st') = momentum_buf (netGaze st) \<and>
         training (netGaze st') = False \<and>
         (\<exists>c pred_all target_all.
            val_batches ops ((netGaze st)\<lparr>training := False\<rparr>) (stream L) (0, [], []) =
              Inr (c, pred_all, target_all) \<and>
            target_all = concat (map snd (stream L)) \<and>
            pred_all = concat (map (batch_pred ops ((netGaze st)\<lparr>training := False\<rparr>)) (stream L)))"
proof -
  from val_Inr [OF assms] obtain c pa ta where
    vb: "val_batches ops ((netGaze st)\<lparr>training := False\<rparr>) (stream L) (0, [], []) = Inr (c, pa, ta)"
    and n: "netGaze st' = (netGaze st)\<lparr>training := False\<rparr>"
    by blast
  from val_batches_Inr [OF vb] have "ta = concat (map snd (stream L))"
    "pa = concat (map (batch_pred ops ((netGaze st)\<lparr>training := False\<rparr>)) (stream L))"
    by simp_all
  with vb n show ?thesis by simp
qed

theorem val_leaves_parameters_unchanged_witness:
  "val example_ops example_val_loader example_trained =
     Inr (example_trained\<lparr>netGaze := (netGaze example_trained)\<lparr>training := False\<rparr>,
            best_accuracy := 20,
            files := files example_trained @ [LogValidation 2 10 20, SaveModel 2,
              SaveConfusionMatrix example_matrix]\<rparr>, 20) \<and>
   params (netGaze example_trained) = 2 \<and>
   params (netGaze (example_trained\<lparr>netGaze := (netGaze example_trained)\<lparr>training := False\<rparr>,
            best_accuracy := 20,
            files := files example_trained @ [LogValidation 2 10 20, SaveModel 2,
              SaveConfusionMatrix example_matrix]\<rparr>)) =
     params (netGaze example_trained)"
proof -
  have v: "val example_ops example_val_loader example_trained =
     Inr (example_trained\<lparr>netGaze := (netGaze example_trained)\<lparr>training := False\<rparr>,
            best_accuracy := 20,
            files := files example_trained @ [LogValidation 2 10 20, SaveModel 2,
              SaveConfusionMatrix example_matrix]\<rparr>, 20)"
    by (simp add: example_trained_def example_defs pass_defs example_matrix_def
        example_matrix_row_def)
  have p: "params (netGaze example_trained) = 2" by (simp add: example_trained_def)
  from val_leaves_parameters_unchanged [OF v] v p show ?thesis by blast
qed

subsection \<open>The order of the passes\<close>

lemma take_upto_1: "k \<le> nat n \<Longrightarrow> take k [1..n] = [1..int k]"
  by (rule nth_equalityI) (simp_all add: nth_upto)

lemma nth_upto_1: "k < nat n \<Longrightarrow> [1..n] ! k = int k + 1"
  by (simp add: nth_upto)

lemma main_epochs_curves:
  "main_epochs ops a tls vls es st = Inr st' \<Longrightarrow>
   \<exists>Ls As Vs. train_loss st' = train_loss st @ Ls \<and> train_acc st' = train_acc st @ As \<and>
     val_acc st' = val_acc st @ Vs \<and>
     length Ls = length es \<and> length As = length es \<and> length Vs = length es \<and>
     (\<forall>k < length es. \<exists>nb na.
        trained ops a tls (take k es) (netGaze st) = Inr nb \<and>
        train_pass ops a (tls (es ! k)) (es ! k) nb = Inr (na, Ls ! k, As ! k) \<and>
        val_accuracy_of ops (vls (es ! k)) na = Inr (Vs ! k))"
proof (induction es arbitrary: st)
  case Nil
  then show ?case by simp
next
  case (Cons i es)
  from Cons.prems obtain st7 na l acc v where
    r: "main_epochs ops a tls vls es st7 = Inr st'" and
    tp: "train_pass ops a (tls i) i (netGaze st) = Inr (na, l, acc)" and
    n7: "netGaze st7 = na\<lparr>training := False\<rparr>" and
    va: "val_accuracy_of ops (vls i) na = Inr v" and
    c7: "train_loss st7 = train_loss st @ [l]" "train_acc st7 = train_acc st @ [acc]"
      "val_acc st7 = val_acc st @ [v]"
    by (rule main_epochs_step)
  from Cons.IH [OF r] obtain Ls As Vs where
    c: "train_loss st' = train_loss st7 @ Ls" "train_acc st' = train_acc st7 @ As"
      "val_acc st' = val_acc st7 @ Vs" and
    len: "length Ls = length es" "length As = length es" "length Vs = length es" and
    ih: "\<forall>k < length es. \<exists>nb na.
        trained ops a tls (take k es) (netGaze st7) = Inr nb \<and>
        train_pass ops a (tls (es ! k)) (es ! k) nb = Inr (na, Ls ! k, As ! k) \<and>
        val_accuracy_of ops (vls (es ! k)) na = Inr (Vs ! k)"
    by blast
  have each: "\<exists>nb na'.
        trained ops a tls (take k (i # es)) (netGaze st) = Inr nb \<and>
        train_pass ops a (tls ((i # es) ! k)) ((i # es) ! k) nb = Inr (na', (l # Ls) ! k, (acc # As) ! k) \<and>
        val_accuracy_of ops (vls ((i # es) ! k)) na' = Inr ((v # Vs) ! k)"
    if k: "k < length (i # es)" for k
  proof (cases k)
    case 0
    with tp va show ?thesis by simp
  next
    case (Suc k')
    with k have k': "k' < length es" by simp
    from ih k' obtain nb0 na0 where
      t0: "trained ops a tls (take k' es) (netGaze st7) = Inr nb0" and
      p0: "train_pass ops a (tls (es ! k')) (es ! k') nb0 = Inr (na0, Ls ! k', As ! k')" and
      v0: "val_accuracy_of ops (vls (es ! k')) na0 = Inr (Vs ! k')"
      by blast
    have same: "(netGaze st7)\<lparr>training := True\<rparr> = na\<lparr>training := True\<rparr>"
      by (simp add: n7)
    from trained_cong [OF same t0] obtain nb where
      t1: "trained ops a tls (take k' es) na = Inr nb" and
      e1: "nb\<lparr>training := True\<rparr> = nb0\<lparr>training := True\<rparr>"
      by blast
    have p1: "train_pass ops a (tls (es ! k')) (es ! k') nb = Inr (na0, Ls ! k', As ! k')"
      using train_pass_cong [OF e1, of ops a "tls (es ! k')" "es ! k'"] p0 by simp
    have "trained ops a tls (take k (i # es)) (netGaze st) = Inr nb"
      using tp t1 by (simp add: Suc)
    with p1 v0 show ?thesis by (auto simp: Suc)
  qed
  have "train_loss st' = train_loss st @ (l # Ls)" "train_acc st' = train_acc st @ (acc # As)"
    "val_acc st' = val_acc st @ (v # Vs)"
    using c c7 by simp_all
  moreover have "length (l # Ls) = length (i # es)" "length (acc # As) = length (i # es)"
    "length (v # Vs) = length (i # es)"
    using len by simp_all
  ultimately show ?case using each by blast
qed

text \<open>
  Claim C7. A run that completes has gone through the epochs 1 to \<^verbatim>\<open>args.epochs\<close>: each
  curve has one entry per epoch. The entries of epoch \<open>k + 1\<close> are the loss and accuracy of
  the training pass of that epoch, started from the network left by the training passes
  of the epochs before it, and the validation accuracy of the network that this training
  pass produced.
\<close>

theorem epochs_train_then_validate:
  assumes "main_loop ops a tls vls (init_world net0) = Inr st"
  shows "length (train_loss st) = nat (epochs a) \<and> length (train_acc st) = nat (epochs a) \<and>
         length (val_acc st) = nat (epochs a) \<and>
         (\<forall>k < nat (epochs a). \<exists>net_before net_after.
            trained ops a tls [1..int k] net0 = Inr net_before \<and>
            train_pass ops a (tls (int k + 1)) (int k + 1) net_before =
              Inr (net_after, train_loss st ! k, train_acc st ! k) \<and>
            val_accuracy_of ops (vls (int k + 1)) net_after = Inr (val_acc st ! k))"
proof -
  from assms have m: "main_epochs ops a tls vls [1..epochs a] (init_world net0) = Inr st"
    by (simp add: main_loop_def)
  have len: "length [1..epochs a] = nat (epochs a)" by simp
  from main_epochs_curves [OF m] obtain Ls As Vs where
    c: "train_loss st = Ls" "train_acc st = As" "val_acc st = Vs" and
    l: "length Ls = nat (epochs a)" "length As = nat (epochs a)" "length Vs = nat (epochs a)" and
    e: "\<forall>k < nat (epochs a). \<exists>nb na.
        trained ops a tls (take k [1..epochs a]) net0 = Inr nb \<and>
        train_pass ops a (tls ([1..epochs a] ! k)) ([1..epochs a] ! k) nb = Inr (na, Ls ! k, As ! k) \<and>
        val_accuracy_of ops (vls ([1..epochs a] ! k)) na = Inr (Vs ! k)"
    unfolding len by (auto simp: init_world_def)
  have "\<exists>net_before net_after.
            trained ops a tls [1..int k] net0 = Inr net_before \<and>
            train_pass ops a (tls (int k + 1)) (int k + 1) net_before =
              Inr (net_after, train_loss st ! k, train_acc st ! k) \<and>
            val_accuracy_of ops (vls (int k + 1)) net_after = Inr (val_acc st ! k)"
    if k: "k < nat (epochs a)" for k
  proof -
    from k have tk: "take k [1..epochs a] = [1..int k]" by (simp add: take_upto_1)
    from k have nk: "[1..epochs a] ! k = int k + 1" by (rule nth_upto_1)
    from e k obtain nb na where
      "trained ops a tls (take k [1..epochs a]) net0 = Inr nb"
      "train_pass ops a (tls ([1..epochs a] ! k)) ([1..epochs a] ! k) nb = Inr (na, Ls ! k, As ! k)"
      "val_accuracy_of ops (vls ([1..epochs a] ! k)) na = Inr (Vs ! k)"
      by blast
    then show ?thesis unfolding tk nk c by blast
  qed
  with c l show ?thesis by blast
qed

theorem epochs_train_then_validate_witness:
  "main_loop example_ops example_args example_train_loaders example_val_loaders
     (init_world example_net) = Inr example_final \<and>
   length (val_acc example_final) = nat (epochs example_args) \<and>
   (1::nat) < nat (epochs example_args) \<and>
   (\<exists>net_before net_after.
      trained example_ops example_args example_train_loaders [1..int 1] example_net = Inr net_before \<and>
      train_pass example_ops example_args (example_train_loaders (int 1 + 1)) (int 1 + 1) net_before =
        Inr (net_after, train_loss example_final ! 1, train_acc example_final ! 1) \<and>
      val_accuracy_of example_ops (example_val_loaders (int 1 + 1)) net_after =
        Inr (val_acc example_final ! 1))"
proof -
  note t = epochs_train_then_validate [OF example_run_eq]
  have k: "(1::nat) < nat (epochs example_args)" by (simp add: example_args_def)
  from t k example_run_eq show ?thesis by blast
qed

end
